theory Spec2Isabelle
  imports Main
begin

section \<open>Python values and exceptions\<close>

text \<open>
  The values the modelled functions pass around: \<open>None\<close>, strings, integers and booleans.
  \<open>truthy\<close> is Python's truth test (\<open>None\<close>, the empty string, \<open>0\<close> and \<open>False\<close>
  are falsey), \<open>py_str\<close> is \<open>str(v)\<close>, which is what the conversion \<open>%s\<close> inserts.
\<close>

datatype pyval = PNone | PStr string | PInt int | PBool bool

datatype exn =
    Exception string
  | AssertionError string
  | InvalidArgumentError string
  | KeyError string
  | IndexError string
  | TypeError string
  | ValueError string
  | AttributeError string
  | WebDriverException string
  | NoSuchElementException string
  | FormatNotModelled

fun truthy :: "pyval \<Rightarrow> bool" where
  "truthy PNone = False"
| "truthy (PStr s) = (s \<noteq> [])"
| "truthy (PInt i) = (i \<noteq> 0)"
| "truthy (PBool b) = b"

definition digit_char :: "nat \<Rightarrow> char" where
  "digit_char d = char_of (48 + d)"

function str_nat :: "nat \<Rightarrow> string" where
  "str_nat n = (if n < 10 then [digit_char n] else str_nat (n div 10) @ [digit_char (n mod 10)])"
  by pat_completeness auto
termination
  by (relation "measure id") auto

declare str_nat.simps [simp del]

fun py_str :: "pyval \<Rightarrow> string" where
  "py_str PNone = ''None''"
| "py_str (PStr s) = s"
| "py_str (PInt i) = (if i < 0 then CHR ''-'' # str_nat (nat (- i)) else str_nat (nat i))"
| "py_str (PBool b) = (if b then ''True'' else ''False'')"

text \<open>
  \<open>or_empty v\<close> is the Python expression \<open>v or ''\<close>: the value itself when it is truthy,
  the empty string otherwise.
\<close>

definition or_empty :: "pyval \<Rightarrow> pyval" where
  "or_empty v = (if truthy v then v else PStr [])"

subsection \<open>The string formatting operator\<close>

text \<open>
  \<open>py_format fmt args\<close> is \<open>fmt % args\<close> for the conversions the repository's templates
  use: \<open>%s\<close> takes the next argument, \<open>%%\<close> is a literal percent sign. The format is read
  left to right and the first fault met is the one raised; arguments left over at the end
  are a \<open>TypeError\<close>. Any other conversion character (flags, widths, \<open>%d\<close>, \<open>%r\<close>) ends the
  model with \<open>FormatNotModelled\<close>, which stands for no Python outcome.
\<close>

definition prepend :: "string \<Rightarrow> exn + string \<Rightarrow> exn + string" where
  "prepend s r = (case r of Inl e \<Rightarrow> Inl e | Inr t \<Rightarrow> Inr (s @ t))"

fun py_format :: "string \<Rightarrow> string list \<Rightarrow> exn + string" where
  "py_format [] [] = Inr []"
| "py_format [] (a # as) = Inl (TypeError ''not all arguments converted during string formatting'')"
| "py_format (c # cs) args =
     (if c \<noteq> CHR ''%'' then prepend [c] (py_format cs args)
      else (case cs of
              [] \<Rightarrow> Inl (ValueError ''incomplete format'')
            | d # ds \<Rightarrow>
                if d = CHR ''%'' then prepend ''%'' (py_format ds args)
                else if d = CHR ''s'' then
                  (case args of
                     [] \<Rightarrow> Inl (TypeError ''not enough arguments for format string'')
                   | a # as \<Rightarrow> prepend a (py_format ds as))
                else Inl FormatNotModelled))"

section \<open>robottelo/ui/rhci.py: dynamic locators\<close>

text \<open>
  A locator is the pair (strategy, expression). The registry \<open>locators\<close> of
  \<open>robottelo.ui.locators\<close> is a dictionary from names to locators; it is a parameter of
  the model. Indexing it with a missing name raises \<open>KeyError\<close>.
\<close>

type_synonym locator = "string \<times> string"
type_synonym registry = "string \<rightharpoonup> locator"

definition getitem :: "registry \<Rightarrow> string \<Rightarrow> exn + locator" where
  "getitem locators name = (case locators name of None \<Rightarrow> Inl (KeyError name) | Some l \<Rightarrow> Inr l)"

definition interp_loc :: "registry \<Rightarrow> string \<Rightarrow> pyval \<Rightarrow> exn + locator" where
  "interp_loc locators locator_name interpolate_string =
     (let interpolate_string = or_empty interpolate_string in
      case getitem locators locator_name of
        Inl e \<Rightarrow> Inl e
      | Inr l \<Rightarrow>
          (case py_format (snd l) [py_str interpolate_string] of
             Inl e \<Rightarrow> Inl e
           | Inr expression \<Rightarrow> Inr (fst l, expression)))"

section \<open>robottelo/cli/gpgkey.py\<close>

text \<open>
  Command options are a dictionary from option names to values. A command result holds the
  return code, the standard output and the standard error. With \<open>expect_csv=True\<close> the
  standard output is the list of parsed rows; \<open>GPGKey.exists\<close> replaces a non-empty list by
  its first row, so the standard output of its result is either a list or one row.

  \<open>Base.execute\<close> and \<open>Base._construct_command\<close> belong to \<open>robottelo.cli.base\<close>; their
  composition is the parameter \<open>execute\<close>, which receives the base command, the sub-command
  and the options. \<open>list_options\<close> is the dictionary \<open>options\<close> of \<open>GPGKey.list\<close> at its
  call of \<open>execute\<close>, and \<open>exists_options\<close> the dictionary \<open>options\<close> of \<open>GPGKey.exists\<close>
  at its call of \<open>list\<close>. The search tuple is \<open>None\<close> or a pair (key, value), which the
  format \<^verbatim>\<open>%s:"%s"\<close> turns into the search criteria.
\<close>

type_synonym options = "string \<rightharpoonup> pyval"
type_synonym csv_row = "(string \<times> string) list"

datatype stdout = Rows "csv_row list" | Row csv_row

record 'o cmd_result =
  return_code :: int
  stdout :: 'o
  stderr :: string

type_synonym hammer = "string \<Rightarrow> string \<Rightarrow> options \<Rightarrow> (csv_row list) cmd_result"

definition command_base :: string where
  "command_base = ''gpg''"

definition list_options :: "pyval \<Rightarrow> options option \<Rightarrow> options" where
  "list_options organization_id opts =
     (let options = (case opts of None \<Rightarrow> Map.empty(''per-page'' \<mapsto> PInt 10000) | Some m \<Rightarrow> m)
      in options(''organization-id'' \<mapsto> organization_id))"

definition gpg_list :: "hammer \<Rightarrow> pyval \<Rightarrow> options option \<Rightarrow> (csv_row list) cmd_result" where
  "gpg_list execute organization_id opts =
     execute command_base ''list'' (list_options organization_id opts)"

definition exists_options :: "(pyval \<times> pyval) option \<Rightarrow> options" where
  "exists_options tuple_search =
     (case tuple_search of
        None \<Rightarrow> Map.empty
      | Some (k, v) \<Rightarrow> Map.empty(''search'' \<mapsto> PStr (py_str k @ '':'' @ [CHR 0x22] @ py_str v @ [CHR 0x22])))"

definition gpg_exists :: "hammer \<Rightarrow> pyval \<Rightarrow> (pyval \<times> pyval) option \<Rightarrow> stdout cmd_result" where
  "gpg_exists execute organization_id tuple_search =
     (let result = gpg_list execute organization_id (Some (exists_options tuple_search))
      in \<lparr>return_code = return_code result,
          stdout = (if stdout result \<noteq> [] then Row (hd (stdout result)) else Rows (stdout result)),
          stderr = stderr result\<rparr>)"

fun records :: "stdout \<Rightarrow> csv_row list" where
  "records (Rows rs) = rs"
| "records (Row r) = [r]"

section \<open>robottelo/datafactory.py\<close>

text \<open>
  The collaborators of the data factory are parameters: \<open>settings.run_one_datapoint\<close> of
  \<open>robottelo.config\<close>, the string generator \<open>gen_string\<close> of \<open>fauxfactory\<close> (a function
  of the string type and the length, standing for the strings one run draws) and the random
  numbers behind \<open>random.choice\<close>, a stream \<open>rng\<close> from which each choice takes the first
  number. \<open>random.choice\<close> raises \<open>IndexError\<close> on an empty sequence.
\<close>

record settings =
  run_one_datapoint :: bool

type_synonym rng = "nat \<Rightarrow> nat"
type_synonym gen = "string \<Rightarrow> nat \<Rightarrow> string"

definition random_choice :: "'a list \<Rightarrow> rng \<Rightarrow> exn + ('a \<times> rng)" where
  "random_choice seq r =
     (if seq = [] then Inl (IndexError ''list index out of range'')
      else Inr (seq ! (r 0 mod length seq), r \<circ> Suc))"

text \<open>
  The decorator \<open>datacheck\<close>: the wrapped function runs first (an exception of its own
  propagates); with \<open>run_one_datapoint\<close> the data set is replaced by a one-element list
  holding a random element of it.
\<close>

definition datacheck ::
  "settings \<Rightarrow> (rng \<Rightarrow> exn + ('a list \<times> rng)) \<Rightarrow> rng \<Rightarrow> exn + ('a list \<times> rng)" where
  "datacheck st func r =
     (case func r of
        Inl e \<Rightarrow> Inl e
      | Inr (dataset, r1) \<Rightarrow>
          if run_one_datapoint st then
            (case random_choice dataset r1 of
               Inl e \<Rightarrow> Inl e
             | Inr (x, r2) \<Rightarrow> Inr ([x], r2))
          else Inr (dataset, r1))"

definition invalid_names_body :: "gen \<Rightarrow> string list" where
  "invalid_names_body gen_string =
     [gen_string ''alphanumeric'' 300,
      gen_string ''alpha'' 300,
      gen_string ''cjk'' 300,
      gen_string ''latin1'' 300,
      gen_string ''numeric'' 300,
      gen_string ''utf8'' 300,
      gen_string ''html'' 300]"

definition invalid_names_list :: "settings \<Rightarrow> gen \<Rightarrow> rng \<Rightarrow> exn + (string list \<times> rng)" where
  "invalid_names_list st gen_string =
     datacheck st (\<lambda>r. Inr (invalid_names_body gen_string, r))"

text \<open>
  The interface argument is \<open>None\<close> or a string. The body of \<open>invalid_values_list\<close> calls the
  decorated \<open>invalid_names_list\<close>, and is itself decorated.
\<close>

definition invalid_values_body ::
  "settings \<Rightarrow> gen \<Rightarrow> string option \<Rightarrow> rng \<Rightarrow> exn + (string list \<times> rng)" where
  "invalid_values_body st gen_string interface r =
     (if interface \<notin> set [Some ''api'', Some ''cli'', Some ''ui'', None] then
        Inl (InvalidArgumentError ''Valid interface values are api, cli, ui only'')
      else if interface = Some ''ui'' then
        (case invalid_names_list st gen_string r of
           Inl e \<Rightarrow> Inl e
         | Inr (names, r1) \<Rightarrow> Inr ([[], '' ''] @ names, r1))
      else
        (case invalid_names_list st gen_string r of
           Inl e \<Rightarrow> Inl e
         | Inr (names, r1) \<Rightarrow> Inr ([[], '' '', [CHR 0x09]] @ names, r1)))"

definition invalid_values_list ::
  "settings \<Rightarrow> gen \<Rightarrow> string option \<Rightarrow> rng \<Rightarrow> exn + (string list \<times> rng)" where
  "invalid_values_list st gen_string interface =
     datacheck st (invalid_values_body st gen_string interface)"

section \<open>The browser session\<close>

text \<open>
  The page objects drive a browser session they do not implement (\<open>robottelo.ui.base\<close>
  for the wizard, the WebDriver of \<open>lib/base.py\<close> for the content layer). The session is
  modelled as a scripted browser: \<open>log\<close> records every call made to it, in order, and two
  oracles answer the calls. \<open>found e k\<close> tells whether the wait \<open>e\<close>, made for the
  \<open>k\<close>-th time (from 0), returns an element rather than \<open>None\<close>; \<open>fault e k\<close> is the
  exception the interaction \<open>e\<close> raises when made for the \<open>k\<close>-th time, if any.
  What the page shows is a function of the calls made so far: \<open>current_url\<close> is the
  address of the page, \<open>rows\<close> the elements a search for several elements returns, each
  with its \<open>id\<close> attribute (if it has one) and, for a relative XPath, the text of the
  element found inside it (if there is one). An element is named by the XPath that found
  it, or by its row and the XPath inside the row.
  Every run of a page object is the run against some such script.
\<close>

datatype element = ByXPath string | InRow string string

datatype event =
    Sleep nat
  | WaitUntilElement locator "nat option"
  | Click locator "nat option"
  | TextFieldUpdate locator pyval
  | Refresh
  | SelectTab string
  | MoveToElement element
  | ElementClick element
  | FindElements string
  | Get string

record row =
  row_id :: "string option"
  row_title :: "string \<Rightarrow> string option"

record browser =
  log :: "event list"
  found :: "event \<Rightarrow> nat \<Rightarrow> bool"
  fault :: "event \<Rightarrow> nat \<Rightarrow> exn option"
  current_url :: "event list \<Rightarrow> string"
  rows :: "event list \<Rightarrow> row list"

type_synonym 'a action = "browser \<Rightarrow> (exn + 'a) \<times> browser"

definition act_return :: "'a \<Rightarrow> 'a action" where
  "act_return x b = (Inr x, b)"

definition act_raise :: "exn \<Rightarrow> 'a action" where
  "act_raise e b = (Inl e, b)"

definition act_bind :: "'a action \<Rightarrow> ('a \<Rightarrow> 'b action) \<Rightarrow> 'b action" where
  "act_bind m f b = (case m b of (Inl e, b1) \<Rightarrow> (Inl e, b1) | (Inr x, b1) \<Rightarrow> f x b1)"

definition act_then :: "'a action \<Rightarrow> 'b action \<Rightarrow> 'b action" where
  "act_then m n = act_bind m (\<lambda>_. n)"

definition act_when :: "bool \<Rightarrow> unit action \<Rightarrow> unit action" where
  "act_when c m = (if c then m else act_return ())"

definition occurrence :: "browser \<Rightarrow> event \<Rightarrow> nat" where
  "occurrence b e = count_list (log b) e"

definition record_call :: "event \<Rightarrow> browser \<Rightarrow> browser" where
  "record_call e b = b\<lparr>log := log b @ [e]\<rparr>"

definition with_calls :: "event list \<Rightarrow> browser \<Rightarrow> browser" where
  "with_calls es b = b\<lparr>log := log b @ es\<rparr>"

definition interact :: "event \<Rightarrow> unit action" where
  "interact e b =
     ((case fault b e (occurrence b e) of None \<Rightarrow> Inr () | Some x \<Rightarrow> Inl x), record_call e b)"

definition sleep :: "nat \<Rightarrow> unit action" where
  "sleep n b = (Inr (), record_call (Sleep n) b)"

definition wait_until_element :: "locator \<Rightarrow> nat option \<Rightarrow> bool action" where
  "wait_until_element l timeout b =
     (Inr (found b (WaitUntilElement l timeout) (occurrence b (WaitUntilElement l timeout))),
      record_call (WaitUntilElement l timeout) b)"

definition click :: "locator \<Rightarrow> nat option \<Rightarrow> unit action" where
  "click l timeout = interact (Click l timeout)"

definition text_field_update :: "locator \<Rightarrow> pyval \<Rightarrow> unit action" where
  "text_field_update l newtext = interact (TextFieldUpdate l newtext)"

definition refresh :: "unit action" where
  "refresh = interact Refresh"

definition locators_get :: "registry \<Rightarrow> string \<Rightarrow> locator action" where
  "locators_get locators name b = (getitem locators name, b)"

section \<open>robottelo/ui/rhci.py: the review page and the completion loop\<close>

text \<open>
  The inner loop of \<open>_page_review_deployment\<close>:
  \<^verbatim>\<open>while attempts < 40 and not success\<close>, refreshing the browser, with a sleep of 15
  seconds and one more attempt counted after each refresh that raises. The bare
  \<^verbatim>\<open>except\<close> swallows whatever the refresh raised.
\<close>

function review_deployment_refresh :: "nat \<Rightarrow> bool \<Rightarrow> browser \<Rightarrow> browser" where
  "review_deployment_refresh attempts success b =
     (if attempts < 40 \<and> \<not> success then
        (case refresh b of
           (Inr _, b1) \<Rightarrow> review_deployment_refresh attempts True b1
         | (Inl _, b1) \<Rightarrow> review_deployment_refresh (attempts + 1) success (snd (sleep 15 b1)))
      else b)"
  by pat_completeness auto
termination
  by (relation "measure (\<lambda>(attempts, success, b). 2 * (40 - attempts) + (if success then 0 else 1))")
     auto

declare review_deployment_refresh.simps [simp del]

text \<open>
  The outer loop, \<^verbatim>\<open>for __ in range(n)\<close> with its \<^verbatim>\<open>else\<close> branch: each round
  sleeps 90 seconds and tries to click the next button; a click that returns breaks out of
  the loop, anything raised inside the \<^verbatim>\<open>try\<close> (the registry lookup included) is
  swallowed and followed by the refresh loop. When the range is used up the \<^verbatim>\<open>else\<close>
  branch raises.
\<close>

fun review_deployment_loop :: "registry \<Rightarrow> nat \<Rightarrow> unit action" where
  "review_deployment_loop locators 0 b =
     (Inl (Exception ''Next button never became available to click''), b)"
| "review_deployment_loop locators (Suc n) b =
     (let b1 = snd (sleep 90 b) in
      case act_bind (locators_get locators ''rhci.next'') (\<lambda>l. click l None) b1 of
        (Inr _, b2) \<Rightarrow> (Inr (), b2)
      | (Inl _, b2) \<Rightarrow> review_deployment_loop locators n (review_deployment_refresh 0 False b2))"

definition page_review_deployment :: "registry \<Rightarrow> unit action" where
  "page_review_deployment locators =
     act_then
       (act_bind (locators_get locators ''rhci.deploy'') (\<lambda>l. click l (Some 300)))
       (review_deployment_loop locators 240)"

section \<open>robottelo/ui/rhci.py: the configuration pages\<close>

text \<open>
  The pages look their locators up by name and hand them to the methods of the base class:
  \<open>wait_for\<close>, \<open>update_field\<close> and \<open>click_on\<close> are
  \<^verbatim>\<open>self.wait_until_element(locators[name], timeout=t)\<close>,
  \<^verbatim>\<open>self.text_field_update(locators[name], value)\<close> and
  \<^verbatim>\<open>self.click(locators[name])\<close>. \<open>act_seq\<close> runs statements one after the
  other and stops at the first that raises.
\<close>

definition wait_for :: "registry \<Rightarrow> string \<Rightarrow> nat option \<Rightarrow> bool action" where
  "wait_for locators name timeout =
     act_bind (locators_get locators name) (\<lambda>l. wait_until_element l timeout)"

definition update_field :: "registry \<Rightarrow> string \<Rightarrow> pyval \<Rightarrow> unit action" where
  "update_field locators name newtext =
     act_bind (locators_get locators name) (\<lambda>l. text_field_update l newtext)"

definition click_on :: "registry \<Rightarrow> string \<Rightarrow> unit action" where
  "click_on locators name = act_bind (locators_get locators name) (\<lambda>l. click l None)"

fun act_seq :: "unit action list \<Rightarrow> unit action" where
  "act_seq [] = act_return ()"
| "act_seq (m # ms) = act_then m (act_seq ms)"

definition page_rhev_configuration ::
  "registry \<Rightarrow> pyval \<Rightarrow> pyval \<Rightarrow> pyval \<Rightarrow> pyval \<Rightarrow> unit action" where
  "page_rhev_configuration locators rhevm_adminpass datacenter_name cluster_name cpu_type =
     act_seq
       [act_bind (wait_for locators ''rhci.rhev_root_pass'' None) (\<lambda>present.
          act_when present (act_seq
            [update_field locators ''rhci.rhev_root_pass'' rhevm_adminpass,
             act_bind (wait_for locators ''rhci.confirm_rhev_root_pass'' (Some 5)) (\<lambda>confirm.
               act_when confirm
                 (update_field locators ''rhci.confirm_rhev_root_pass'' rhevm_adminpass)),
             update_field locators ''rhci.rhevm_adminpass'' rhevm_adminpass,
             act_bind (wait_for locators ''rhci.confirm_rhevm_adminpass'' (Some 5)) (\<lambda>confirm.
               act_when confirm
                 (update_field locators ''rhci.confirm_rhevm_adminpass'' rhevm_adminpass)),
             act_when (datacenter_name \<noteq> PNone)
               (update_field locators ''rhci.datacenter_name'' datacenter_name),
             act_when (cluster_name \<noteq> PNone)
               (update_field locators ''rhci.cluster_name'' cluster_name),
             act_when (cpu_type \<noteq> PNone)
               (update_field locators ''rhci.cpu_type'' cpu_type)])),
        click_on locators ''rhci.next'']"

definition page_cloudforms_configuration ::
  "registry \<Rightarrow> locator \<Rightarrow> pyval \<Rightarrow> pyval \<Rightarrow> unit action" where
  "page_cloudforms_configuration locators cfme_install_locator cfme_root_password
       cfme_admin_password =
     act_seq
       [act_bind (wait_until_element cfme_install_locator None) (\<lambda>present.
          act_when present (click cfme_install_locator None)),
        click_on locators ''rhci.next'',
        act_bind (wait_for locators ''rhci.cfme_root_password'' None) (\<lambda>_. act_return ()),
        update_field locators ''rhci.cfme_root_password'' cfme_root_password,
        act_bind (wait_for locators ''rhci.confirm_cfme_root_password'' (Some 5)) (\<lambda>confirm.
          act_when confirm
            (update_field locators ''rhci.confirm_cfme_root_password'' cfme_root_password)),
        update_field locators ''rhci.cfme_admin_password'' cfme_admin_password,
        act_bind (wait_for locators ''rhci.confirm_cfme_admin_password'' (Some 5)) (\<lambda>confirm.
          act_when confirm
            (update_field locators ''rhci.confirm_cfme_admin_password'' cfme_admin_password)),
        click_on locators ''rhci.next'']"

section \<open>lib/content.py: the content layer\<close>

text \<open>
  The content layer works on WebDriver elements. \<open>wait_until_element(driver, xpath,
  By.XPATH)\<close> of \<open>lib/common.py\<close> returns the element or \<open>None\<close>; a method called on
  \<open>None\<close> raises \<open>AttributeError\<close>. The assertions of \<open>robot.utils.asserts\<close> raise
  \<open>AssertionError\<close>: \<open>assert_true\<close> and \<open>fail\<close> with the given message,
  \<open>fail_if_none\<close> with the message followed by \<^verbatim>\<open>: is None\<close>, \<open>fail_unless_none\<close>
  with the message followed by a colon, \<open>repr\<close> of the object and \<^verbatim>\<open>is not None\<close>.
  The XPath constants of \<open>lib/locators.py\<close>, the provider types of \<open>lib/common.py\<close>, the
  base address of \<open>lib/base.py\<close> and what \<open>repr\<close> prints for an element of the driver are
  the fields of the parameter \<open>K\<close>.
\<close>

record content_constants =
  HEADER_CONTENT_MANAGEMENT :: string
  SUB_HEADER_CONTENT_PROVIDER :: string
  PROVIDER :: string
  PROVIDERS :: string
  PROVIDER_BY_TITLE :: string
  PROVIDER_REMOVE_LINK :: string
  YES_BUTTON :: string
  CUSTOM_PROVIDERS :: string
  base_url :: string
  element_repr :: "element \<Rightarrow> string"

definition wait_xpath :: "string \<Rightarrow> element option action" where
  "wait_xpath x b =
     (Inr (if found b (WaitUntilElement (''xpath'', x) None)
                (occurrence b (WaitUntilElement (''xpath'', x) None))
           then Some (ByXPath x) else None),
      record_call (WaitUntilElement (''xpath'', x) None) b)"

definition element_click :: "element option \<Rightarrow> unit action" where
  "element_click el =
     (case el of
        None \<Rightarrow> act_raise (AttributeError ''click'')
      | Some e \<Rightarrow> interact (ElementClick e))"

definition perform_move_to :: "element option \<Rightarrow> unit action" where
  "perform_move_to el =
     (case el of
        None \<Rightarrow> act_raise (AttributeError ''id'')
      | Some e \<Rightarrow> interact (MoveToElement e))"

definition driver_get :: "string \<Rightarrow> unit action" where
  "driver_get url = interact (Get url)"

definition fail_if_none :: "'a option \<Rightarrow> string \<Rightarrow> unit action" where
  "fail_if_none obj msg =
     (if obj = None then act_raise (AssertionError (msg @ '': is None'')) else act_return ())"

definition fail_unless_none :: "('a \<Rightarrow> string) \<Rightarrow> 'a option \<Rightarrow> string \<Rightarrow> unit action" where
  "fail_unless_none repr obj msg =
     (case obj of
        None \<Rightarrow> act_return ()
      | Some x \<Rightarrow> act_raise (AssertionError (msg @ '': '' @ repr x @ '' is not None'')))"

definition assert_true :: "bool \<Rightarrow> string \<Rightarrow> unit action" where
  "assert_true expr msg = (if \<not> expr then act_raise (AssertionError msg) else act_return ())"

definition format_act :: "string \<Rightarrow> string \<Rightarrow> string action" where
  "format_act fmt arg b = (py_format fmt [arg], b)"

definition act_catch :: "'a action \<Rightarrow> (exn \<Rightarrow> 'a action) \<Rightarrow> 'a action" where
  "act_catch m handler b = (case m b of (Inl e, b1) \<Rightarrow> handler e b1 | (Inr x, b1) \<Rightarrow> (Inr x, b1))"

text \<open>
  \<open>contains sub s\<close> is Python's \<open>sub in s\<close> on strings. In Selenium
  \<open>NoSuchElementException\<close> is a subclass of \<open>WebDriverException\<close>, so a handler for the
  latter takes both.
\<close>

fun starts_with :: "string \<Rightarrow> string \<Rightarrow> bool" where
  "starts_with [] s = True"
| "starts_with (c # cs) [] = False"
| "starts_with (c # cs) (d # ds) = (c = d \<and> starts_with cs ds)"

fun contains :: "string \<Rightarrow> string \<Rightarrow> bool" where
  "contains sub [] = (sub = [])"
| "contains sub (c # cs) = (starts_with sub (c # cs) \<or> contains sub cs)"

fun is_WebDriverException :: "exn \<Rightarrow> bool" where
  "is_WebDriverException (WebDriverException m) = True"
| "is_WebDriverException (NoSuchElementException m) = True"
| "is_WebDriverException e = False"

fun is_NoSuchElementException :: "exn \<Rightarrow> bool" where
  "is_NoSuchElementException (NoSuchElementException m) = True"
| "is_NoSuchElementException e = False"

definition go_to_content_tab :: "content_constants \<Rightarrow> bool action" where
  "go_to_content_tab K b =
     (Inr (found b (SelectTab (HEADER_CONTENT_MANAGEMENT K))
             (occurrence b (SelectTab (HEADER_CONTENT_MANAGEMENT K)))),
      record_call (SelectTab (HEADER_CONTENT_MANAGEMENT K)) b)"

text \<open>
  \<open>select_content_provider\<close>: the body of the \<^verbatim>\<open>try\<close>, the address the handler for
  \<open>WebDriverException\<close> computes, and the whole method. The chain of actions built by
  \<open>move_to_element\<close> is never \<open>None\<close>, so the first assertion cannot fail; the chain reads
  the element when it is performed.
\<close>

definition select_content_provider_try ::
  "content_constants \<Rightarrow> string \<Rightarrow> element option \<Rightarrow> unit action" where
  "select_content_provider_try K content_provider_type content_provider_link =
     act_seq
       [perform_move_to content_provider_link,
        act_bind (format_act (PROVIDER K) content_provider_type) (\<lambda>x.
          act_bind (wait_xpath x) (\<lambda>provider.
            act_seq
              [fail_if_none provider ''Could not locate the content provider type.'',
               element_click provider]))]"

definition fallback_url :: "content_constants \<Rightarrow> string \<Rightarrow> browser \<Rightarrow> string" where
  "fallback_url K content_provider_type b =
     (if contains ''custom'' content_provider_type then current_url b (log b)
      else if contains ''redhat'' content_provider_type
        then current_url b (log b) @ ''/redhat_provider''
      else if contains ''filters'' content_provider_type then base_url K @ ''/filters''
      else base_url K @ ''/gpg_keys'')"

definition select_content_provider :: "content_constants \<Rightarrow> string \<Rightarrow> unit action" where
  "select_content_provider K content_provider_type =
     act_bind (wait_xpath (SUB_HEADER_CONTENT_PROVIDER K)) (\<lambda>content_provider_link.
       act_catch
         (select_content_provider_try K content_provider_type content_provider_link)
         (\<lambda>e. if is_WebDriverException e then
                 (\<lambda>b. driver_get (fallback_url K content_provider_type b) b)
               else if is_NoSuchElementException e then
                 act_raise (AssertionError (''Could not select the '' @ [CHR 0x27] @
                   content_provider_type @ [CHR 0x27] @ '' content type''))
               else act_raise e))"

text \<open>
  \<open>_get_provider_by_name\<close>: the loop over the rows stops at the first row whose title
  holds the name; a row without a title element raises \<open>NoSuchElementException\<close>. The
  provider id is what follows the last underscore of the row's \<open>id\<close> attribute.
\<close>

definition after_last_underscore :: "string \<Rightarrow> string" where
  "after_last_underscore s = rev (takeWhile (\<lambda>c. c \<noteq> CHR ''_'') (rev s))"

fun provider_rows_scan ::
  "content_constants \<Rightarrow> string \<Rightarrow> row list \<Rightarrow> exn + (element option \<times> string option)" where
  "provider_rows_scan K name [] = Inr (None, None)"
| "provider_rows_scan K name (provider # providers) =
     (case py_format (PROVIDER_BY_TITLE K) [name] of
        Inl e \<Rightarrow> Inl e
      | Inr x \<Rightarrow>
          (case row_title provider x of
             None \<Rightarrow> Inl (NoSuchElementException x)
           | Some text \<Rightarrow>
               if contains name text then
                 (case row_id provider of
                    None \<Rightarrow> Inl (AttributeError ''split'')
                  | Some attr \<Rightarrow>
                      Inr (Some (InRow attr x), Some (after_last_underscore attr)))
               else provider_rows_scan K name providers))"

definition get_provider_by_name ::
  "content_constants \<Rightarrow> string \<Rightarrow> (element option \<times> string option) action" where
  "get_provider_by_name K name b =
     (provider_rows_scan K name (rows b (log b @ [FindElements (PROVIDERS K)])),
      record_call (FindElements (PROVIDERS K)) b)"

text \<open>
  \<open>delete_custom_provider\<close>. The remove link is clicked as the wait returned it, with no
  assertion in between.
\<close>

definition delete_custom_provider :: "content_constants \<Rightarrow> string \<Rightarrow> unit action" where
  "delete_custom_provider K provider_name =
     act_seq
       [act_bind (go_to_content_tab K) (\<lambda>tab.
          assert_true tab ''Could not access the Content Management tab.''),
        select_content_provider K (CUSTOM_PROVIDERS K),
        act_bind (get_provider_by_name K provider_name) (\<lambda>(provider, provider_id).
          act_seq
            [fail_if_none provider
               (''Could not locate the '' @ [CHR 0x27] @ provider_name @ [CHR 0x27] @ '' provider.''),
             element_click provider,
             act_bind (format_act (PROVIDER_REMOVE_LINK K) (case provider_id of None \<Rightarrow> ''None'' | Some i \<Rightarrow> i)) (\<lambda>x.
               act_bind (wait_xpath x) (\<lambda>remove_link. element_click remove_link)),
             act_bind (wait_xpath (YES_BUTTON K)) (\<lambda>yes_button.
               act_seq
                 [fail_if_none yes_button ''Could not find the Yes button to remove role.'',
                  element_click yes_button]),
             select_content_provider K (CUSTOM_PROVIDERS K),
             act_bind (get_provider_by_name K provider_name) (\<lambda>(provider, provider_id).
               fail_unless_none (element_repr K) provider
                 ''Found a provider with that name already.'')])]"

section \<open>Scripts and fixtures for the concrete runs\<close>

text \<open>A registry with a static locator and a locator with a placeholder.\<close>

definition sample_locators :: registry where
  "sample_locators =
     Map.empty(''rhci.next'' \<mapsto> (''xpath'', ''//button[text()=Next]''),
               ''rhci.env_path'' \<mapsto> (''xpath'', ''//label[text()=%s]/input''))"

text \<open>A key server holding two keys, which honours a search by name.\<close>

definition search_name :: "(pyval \<times> pyval) option" where
  "search_name = Some (PStr ''name'', PStr ''key1'')"

definition key_server :: hammer where
  "key_server base sub opts =
     \<lparr>return_code = 0,
      stdout = (if opts ''search'' = Some (PStr (''name:'' @ [CHR 0x22] @ ''key1'' @ [CHR 0x22]))
                then [[(''ID'', ''7''), (''Name'', ''key1'')]]
                else if opts ''search'' = None
                then [[(''ID'', ''7''), (''Name'', ''key1'')], [(''ID'', ''9''), (''Name'', ''key2'')]]
                else []),
      stderr = []\<rparr>"

text \<open>A string generator that returns the name of the string type, and the two settings.\<close>

definition fixed_gen :: gen where
  "fixed_gen str_type n = str_type"

definition one_datapoint :: settings where
  "one_datapoint = \<lparr>run_one_datapoint = True\<rparr>"

definition whole_dataset :: settings where
  "whole_dataset = \<lparr>run_one_datapoint = False\<rparr>"

text \<open>The registry of the review page.\<close>

definition wizard_locators :: registry where
  "wizard_locators =
     Map.empty(''rhci.deploy'' \<mapsto> (''xpath'', ''//button[@id=deploy]''),
               ''rhci.next'' \<mapsto> (''xpath'', ''//button[@id=next]''))"

definition next_button :: locator where
  "next_button = (''xpath'', ''//button[@id=next]'')"

text \<open>A script: the next button can be clicked from the \<open>ready\<close>-th try on, and the
  first \<open>bad\<close> refreshes raise.\<close>

definition script :: "nat \<Rightarrow> nat \<Rightarrow> browser" where
  "script ready bad =
     \<lparr>log = [],
      found = (\<lambda>e k. True),
      fault = (\<lambda>e k. if e = Click next_button None \<and> k < ready
                          then Some (NoSuchElementException ''rhci.next'')
                        else if e = Refresh \<and> k < bad then Some (WebDriverException ''refresh'')
                        else None),
      current_url = (\<lambda>h. []),
      rows = (\<lambda>h. [])\<rparr>"

text \<open>The registry of the two configuration pages.\<close>

definition config_locators :: registry where
  "config_locators =
     Map.empty(''rhci.rhev_root_pass'' \<mapsto> (''id'', ''root_pass''),
               ''rhci.confirm_rhev_root_pass'' \<mapsto> (''id'', ''confirm_root_pass''),
               ''rhci.rhevm_adminpass'' \<mapsto> (''id'', ''admin_pass''),
               ''rhci.confirm_rhevm_adminpass'' \<mapsto> (''id'', ''confirm_admin_pass''),
               ''rhci.datacenter_name'' \<mapsto> (''id'', ''datacenter''),
               ''rhci.cluster_name'' \<mapsto> (''id'', ''cluster''),
               ''rhci.cpu_type'' \<mapsto> (''id'', ''cpu''),
               ''rhci.cfme_root_password'' \<mapsto> (''id'', ''cfme_root''),
               ''rhci.confirm_cfme_root_password'' \<mapsto> (''id'', ''confirm_cfme_root''),
               ''rhci.cfme_admin_password'' \<mapsto> (''id'', ''cfme_admin''),
               ''rhci.confirm_cfme_admin_password'' \<mapsto> (''id'', ''confirm_cfme_admin''),
               ''rhci.next'' \<mapsto> (''xpath'', ''//button[@id=next]''))"

text \<open>A page on which every wait with the default timeout finds its field, the waits of five
  seconds find theirs when \<open>shown\<close> holds, and no interaction raises.\<close>

definition page_script :: "bool \<Rightarrow> browser" where
  "page_script shown =
     \<lparr>log = [],
      found = (\<lambda>e k. case e of WaitUntilElement l t \<Rightarrow> t = None \<or> shown | _ \<Rightarrow> False),
      fault = (\<lambda>e k. None),
      current_url = (\<lambda>h. []),
      rows = (\<lambda>h. [])\<rparr>"

text \<open>The constants of a site.\<close>

definition site :: content_constants where
  "site =
     \<lparr>HEADER_CONTENT_MANAGEMENT = ''//a[text()=Content]'',
      SUB_HEADER_CONTENT_PROVIDER = ''//a[text()=Providers]'',
      PROVIDER = ''//a[@id=%s]'',
      PROVIDERS = ''//div[@class=provider]'',
      PROVIDER_BY_TITLE = ''.//div[text()=%s]'',
      PROVIDER_REMOVE_LINK = ''//a[@id=remove_%s]'',
      YES_BUTTON = ''//button[text()=Yes]'',
      CUSTOM_PROVIDERS = ''custom'',
      base_url = ''https://host'',
      element_repr = (\<lambda>e. ''<WebElement>'')\<rparr>"

text \<open>A providers page that lists the provider Fedora in the row \<open>provider_39\<close>. The remove
  link appears when \<open>remove_shown\<close> holds; the hover and the click on the provider type raise
  what \<open>hover_fault\<close> and \<open>click_fault\<close> say.\<close>

definition providers_page :: "exn option \<Rightarrow> exn option \<Rightarrow> bool \<Rightarrow> browser" where
  "providers_page hover_fault click_fault remove_shown =
     \<lparr>log = [],
      found = (\<lambda>e k. if e = WaitUntilElement (''xpath'', ''//a[@id=remove_39]'') None
                      then remove_shown else True),
      fault = (\<lambda>e k. case e of
                 MoveToElement el \<Rightarrow> hover_fault
               | ElementClick el \<Rightarrow> (case el of ByXPath x \<Rightarrow> click_fault | InRow r x \<Rightarrow> None)
               | _ \<Rightarrow> None),
      current_url = (\<lambda>h. ''https://host/providers''),
      rows = (\<lambda>h. [\<lparr>row_id = Some ''provider_39'', row_title = (\<lambda>x. Some ''Fedora'')\<rparr>])\<rparr>"

section \<open>Properties\<close>

subsection \<open>Dynamic locators\<close>

lemma py_format_plain:
  "CHR ''%'' \<notin> set s \<Longrightarrow> py_format (s @ t) args = prepend s (py_format t args)"
  by (induction s) (auto simp: prepend_def split: sum.splits)

lemma py_format_rest: "CHR ''%'' \<notin> set s \<Longrightarrow> py_format s [] = Inr s"
  by (induction s) (auto simp: prepend_def)

text \<open>
  Claim C9, as the code has it. For every locator name registered with an expression that
  holds exactly one placeholder \<open>%s\<close> and no other percent sign, and every interpolation
  value (\<open>None\<close>, a string, an integer or a boolean), \<open>interp_loc\<close> returns the pair of the
  registered strategy, unchanged, and the registered expression with \<open>str\<close> of the value in
  the place of the placeholder; for \<open>None\<close> and every other falsey value the empty string
  takes that place.
\<close>

theorem interp_loc_substitutes:
  assumes "locators name = Some (strategy, pre @ ''%s'' @ post)"
    and "CHR ''%'' \<notin> set pre" and "CHR ''%'' \<notin> set post"
  shows "interp_loc locators name v =
           Inr (strategy, pre @ (if truthy v then py_str v else []) @ post)"
  using assms
  by (simp add: interp_loc_def getitem_def or_empty_def py_format_plain py_format_rest prepend_def)

text \<open>The theorem at the locator with a placeholder, for a string, \<open>None\<close> and \<open>0\<close>.\<close>

theorem interp_loc_substitutes_witness:
  "interp_loc sample_locators ''rhci.env_path'' (PStr ''Library'') =
     Inr (''xpath'', ''//label[text()=Library]/input'') \<and>
   interp_loc sample_locators ''rhci.env_path'' PNone = Inr (''xpath'', ''//label[text()=]/input'') \<and>
   interp_loc sample_locators ''rhci.env_path'' (PInt 0) = Inr (''xpath'', ''//label[text()=]/input'')"
  using interp_loc_substitutes [of sample_locators "''rhci.env_path''" "''xpath''" "''//label[text()=''" "'']/input''" "PStr ''Library''"]
    interp_loc_substitutes [of sample_locators "''rhci.env_path''" "''xpath''" "''//label[text()=''" "'']/input''" PNone]
    interp_loc_substitutes [of sample_locators "''rhci.env_path''" "''xpath''" "''//label[text()=''" "'']/input''" "PInt 0"]
  by (simp add: sample_locators_def)

text \<open>
  The claim for every registered name fails at a static locator: its expression has no
  placeholder, and the formatting operator raises \<open>TypeError\<close> instead of returning.
\<close>

theorem interp_loc_static_counterexample:
  "sample_locators ''rhci.next'' = Some (''xpath'', ''//button[text()=Next]'') \<and>
   interp_loc sample_locators ''rhci.next'' (PStr ''x'') =
     Inl (TypeError ''not all arguments converted during string formatting'')"
  by (simp add: sample_locators_def interp_loc_def getitem_def or_empty_def prepend_def)

subsection \<open>GPG keys on the command line\<close>

lemma take_one_hd: "take (Suc 0) xs = (if xs = [] then [] else [hd xs])"
  by (cases xs) simp_all

text \<open>
  Claim C4. For every organization id, every optional search tuple and every server,
  \<open>GPGKey.exists\<close> returns at most one record. It runs the list command with the options
  it built (none for no tuple, the single option \<open>search\<close> of the form \<open>key:"value"\<close> for
  a tuple) and the organization id; a non-empty output is replaced by its first row, an
  empty output stays the empty list. Return code and standard error are passed on.
\<close>

theorem exists_at_most_one:
  "gpg_exists execute org ts =
     (let raw = execute command_base ''list'' ((exists_options ts)(''organization-id'' \<mapsto> org))
      in \<lparr>return_code = return_code raw,
          stdout = (case stdout raw of [] \<Rightarrow> Rows [] | r # rs \<Rightarrow> Row r),
          stderr = stderr raw\<rparr>) \<and>
   length (records (stdout (gpg_exists execute org ts))) \<le> 1 \<and>
   records (stdout (gpg_exists execute org ts)) =
     take 1 (stdout (execute command_base ''list'' ((exists_options ts)(''organization-id'' \<mapsto> org)))) \<and>
   exists_options None = Map.empty \<and>
   exists_options (Some (k, v)) = [''search'' \<mapsto> PStr (py_str k @ '':'' @ [CHR 0x22] @ py_str v @ [CHR 0x22])] \<and>
   (stdout (execute command_base ''list'' ((exists_options ts)(''organization-id'' \<mapsto> org))) = [] \<longrightarrow>
      records (stdout (gpg_exists execute org ts)) = [])"
  by (auto simp add: gpg_exists_def gpg_list_def list_options_def exists_options_def Let_def
      take_one_hd split: list.splits)

text \<open>The theorem at the key server: a search that matches, no search, a search that matches
  nothing.\<close>

theorem exists_at_most_one_witness:
  "stdout (gpg_exists key_server (PInt 1) search_name) = Row [(''ID'', ''7''), (''Name'', ''key1'')] \<and>
   stdout (gpg_exists key_server (PInt 1) None) = Row [(''ID'', ''7''), (''Name'', ''key1'')] \<and>
   records (stdout (gpg_exists key_server (PInt 1) (Some (PStr ''name'', PStr ''zzz'')))) = []"
  using exists_at_most_one [of key_server "PInt 1" search_name]
    exists_at_most_one [of key_server "PInt 1" None]
    exists_at_most_one [of key_server "PInt 1" "Some (PStr ''name'', PStr ''zzz'')"]
  by (simp add: key_server_def search_name_def exists_options_def command_base_def Let_def)

text \<open>
  Claim C8, as the code has it. \<open>GPGKey.list\<close> runs the list command with options that always hold
  \<open>organization-id\<close>, set to the given id. When the caller passes no mapping the options are
  exactly \<open>per-page = 10000\<close> and the organization id; a mapping the caller passes is sent
  with the organization id set and nothing else changed, so \<open>list\<close> touches the entry
  \<open>per-page\<close> exactly when the caller passes \<open>None\<close>. \<open>GPGKey.exists\<close> always passes a
  mapping, which holds no \<open>per-page\<close>: the command it runs has no pagination option.
\<close>

theorem list_options_sent:
  "gpg_list execute org opts = execute command_base ''list'' (list_options org opts) \<and>
   list_options org opts ''organization-id'' = Some org \<and>
   list_options org None = [''per-page'' \<mapsto> PInt 10000, ''organization-id'' \<mapsto> org] \<and>
   list_options org (Some m) = m(''organization-id'' \<mapsto> org) \<and>
   list_options org (Some m) ''per-page'' = m ''per-page'' \<and>
   ((list_options org opts ''per-page'' \<noteq> (case opts of None \<Rightarrow> None | Some m \<Rightarrow> m ''per-page''))
      = (opts = None)) \<and>
   list_options org (Some (exists_options ts)) ''per-page'' = None \<and>
   list_options org (Some (exists_options ts)) ''organization-id'' = Some org \<and>
   return_code (gpg_exists execute org ts) =
     return_code (execute command_base ''list'' (list_options org (Some (exists_options ts)))) \<and>
   stderr (gpg_exists execute org ts) =
     stderr (execute command_base ''list'' (list_options org (Some (exists_options ts))))"
  by (auto simp add: gpg_exists_def gpg_list_def list_options_def exists_options_def Let_def
      split: option.splits)

text \<open>
  The claim as worded, with \<open>per-page = 10000\<close> among the options sent exactly when the
  caller passes \<open>None\<close>, fails for a caller who passes a mapping that holds this very
  entry: the mapping is not \<open>None\<close>, and the option is sent.
\<close>

theorem list_options_own_per_page_counterexample:
  "Some [''per-page'' \<mapsto> PInt 10000] \<noteq> (None :: options option) \<and>
   list_options (PInt 1) (Some [''per-page'' \<mapsto> PInt 10000]) ''per-page'' = Some (PInt 10000) \<and>
   gpg_list key_server (PInt 1) (Some [''per-page'' \<mapsto> PInt 10000]) =
     key_server command_base ''list'' [''per-page'' \<mapsto> PInt 10000, ''organization-id'' \<mapsto> PInt 1]"
  by (simp add: list_options_def gpg_list_def)

subsection \<open>Invalid values of the data factory\<close>

lemma datacheck_raise: "f r = Inl e \<Longrightarrow> datacheck st f r = Inl e"
  by (simp add: datacheck_def)

lemma datacheck_whole: "\<not> run_one_datapoint st \<Longrightarrow> datacheck st f r = f r"
  by (simp add: datacheck_def split: sum.splits prod.splits)

lemma invalid_names_body_nonempty: "invalid_names_body g \<noteq> []"
  by (simp add: invalid_names_body_def)

lemma invalid_names_whole:
  "\<not> run_one_datapoint st \<Longrightarrow> invalid_names_list st g r = Inr (invalid_names_body g, r)"
  by (simp add: invalid_names_list_def datacheck_whole)

lemma invalid_values_body_whole:
  assumes "\<not> run_one_datapoint st"
  shows "invalid_values_body st g interface r =
           (if interface \<notin> {Some ''api'', Some ''cli'', Some ''ui'', None}
            then Inl (InvalidArgumentError ''Valid interface values are api, cli, ui only'')
            else if interface = Some ''ui'' then Inr ([[], '' ''] @ invalid_names_body g, r)
            else Inr ([[], '' '', [CHR 0x09]] @ invalid_names_body g, r))"
  using assms by (simp add: invalid_values_body_def invalid_names_whole)

text \<open>With one data point each decorated function draws once: the name first, then the value.\<close>

lemma random_choice_exact:
  "xs \<noteq> [] \<Longrightarrow> random_choice xs r = Inr (xs ! (r 0 mod length xs), r \<circ> Suc)"
  by (simp add: random_choice_def)

lemma datacheck_one_exact:
  "run_one_datapoint st \<Longrightarrow> f r = Inr (d, r1) \<Longrightarrow> d \<noteq> [] \<Longrightarrow>
   datacheck st f r = Inr ([d ! (r1 0 mod length d)], r1 \<circ> Suc)"
  by (simp add: datacheck_def random_choice_def)

lemma invalid_names_body_length: "length (invalid_names_body g) = 7"
  by (simp add: invalid_names_body_def)

lemma invalid_names_one_exact:
  "run_one_datapoint st \<Longrightarrow>
   invalid_names_list st g r = Inr ([invalid_names_body g ! (r 0 mod 7)], r \<circ> Suc)"
  unfolding invalid_names_list_def
  using datacheck_one_exact [where st = st and f = "\<lambda>r. Inr (invalid_names_body g, r)" and r = r
      and d = "invalid_names_body g" and ?r1.0 = r]
  by (simp add: invalid_names_body_nonempty invalid_names_body_length)

lemma invalid_values_one_ui:
  assumes "run_one_datapoint st"
  shows "invalid_values_list st g (Some ''ui'') r =
           Inr ([[[], '' '', invalid_names_body g ! (r 0 mod 7)] ! (r 1 mod 3)], (r \<circ> Suc) \<circ> Suc)"
proof -
  have body: "invalid_values_body st g (Some ''ui'') r =
        Inr ([[], '' '', invalid_names_body g ! (r 0 mod 7)], r \<circ> Suc)"
    using assms by (simp add: invalid_values_body_def invalid_names_one_exact)
  show ?thesis
    unfolding invalid_values_list_def
    using datacheck_one_exact [where st = st and f = "invalid_values_body st g (Some ''ui'')"
        and r = r and d = "[[], '' '', invalid_names_body g ! (r 0 mod 7)]" and ?r1.0 = "r \<circ> Suc"]
      assms body
    by simp
qed

lemma invalid_values_one_other:
  assumes "run_one_datapoint st" and "interface \<in> {Some ''api'', Some ''cli'', None}"
  shows "invalid_values_list st g interface r =
           Inr ([[[], '' '', [CHR 0x09], invalid_names_body g ! (r 0 mod 7)] ! (r 1 mod 4)],
                (r \<circ> Suc) \<circ> Suc)"
proof -
  have body: "invalid_values_body st g interface r =
        Inr ([[], '' '', [CHR 0x09], invalid_names_body g ! (r 0 mod 7)], r \<circ> Suc)"
    using assms by (auto simp add: invalid_values_body_def invalid_names_one_exact)
  show ?thesis
    unfolding invalid_values_list_def
    using datacheck_one_exact [where st = st and f = "invalid_values_body st g interface"
        and r = r and d = "[[], '' '', [CHR 0x09], invalid_names_body g ! (r 0 mod 7)]"
        and ?r1.0 = "r \<circ> Suc"]
      assms(1) body
    by simp
qed

lemma pick_member: "xs \<noteq> [] \<Longrightarrow> xs ! (k mod length xs) \<in> set xs"
  by simp

lemma name_member: "invalid_names_body g ! (k mod 7) \<in> set (invalid_names_body g)"
  using pick_member [of "invalid_names_body g" k]
  by (simp add: invalid_names_body_nonempty invalid_names_body_length)

lemma ui_member:
  "[[], '' '', invalid_names_body g ! (j mod 7)] ! (k mod 3) \<in> set ([[], '' ''] @ invalid_names_body g)"
proof -
  have "[[], '' '', invalid_names_body g ! (j mod 7)] ! (k mod 3)
          \<in> set [[], '' '', invalid_names_body g ! (j mod 7)]"
    using pick_member [of "[[], '' '', invalid_names_body g ! (j mod 7)]" k] by simp
  then show ?thesis using name_member [of g j] by auto
qed

lemma other_member:
  "[[], '' '', [CHR 0x09], invalid_names_body g ! (j mod 7)] ! (k mod 4)
     \<in> set ([[], '' '', [CHR 0x09]] @ invalid_names_body g)"
proof -
  have "[[], '' '', [CHR 0x09], invalid_names_body g ! (j mod 7)] ! (k mod 4)
          \<in> set [[], '' '', [CHR 0x09], invalid_names_body g ! (j mod 7)]"
    using pick_member [of "[[], '' '', [CHR 0x09], invalid_names_body g ! (j mod 7)]" k] by simp
  then show ?thesis using name_member [of g j] by auto
qed

text \<open>
  Claim C10, as the code has it. \<open>invalid_values_list\<close> raises if and only if the interface
  is none of \<open>'api'\<close>, \<open>'cli'\<close>, \<open>'ui'\<close> and \<open>None\<close>, and what it raises then is
  \<open>InvalidArgumentError\<close>. When \<open>settings.run_one_datapoint\<close> is false, the result for
  \<open>'ui'\<close> is the empty string and the blank followed by the invalid-names list, and for
  \<open>'api'\<close>, \<open>'cli'\<close> and \<open>None\<close> the empty string, the blank and the tab followed by the
  invalid-names list. When \<open>settings.run_one_datapoint\<close> is true, both decorated functions
  return one value: \<open>invalid_names_list\<close> the invalid name the first random number picks
  among the seven, and \<open>invalid_values_list\<close> the value the second random number picks
  among the empty string, the blank and that name for \<open>'ui'\<close>, among the empty string, the
  blank, the tab and that name for \<open>'api'\<close>, \<open>'cli'\<close> and \<open>None\<close>. For \<open>'ui'\<close> that value
  is the empty string, the blank or an invalid name, never the tab.
\<close>

theorem invalid_values_list_contract:
  "((\<exists>e. invalid_values_list st g interface r = Inl e) =
      (interface \<notin> {Some ''api'', Some ''cli'', Some ''ui'', None})) \<and>
   (interface \<notin> {Some ''api'', Some ''cli'', Some ''ui'', None} \<longrightarrow>
      invalid_values_list st g interface r =
        Inl (InvalidArgumentError ''Valid interface values are api, cli, ui only'')) \<and>
   (\<not> run_one_datapoint st \<longrightarrow>
      invalid_names_list st g r = Inr (invalid_names_body g, r) \<and>
      invalid_values_list st g (Some ''ui'') r = Inr ([[], '' ''] @ invalid_names_body g, r) \<and>
      (interface \<in> {Some ''api'', Some ''cli'', None} \<longrightarrow>
         invalid_values_list st g interface r =
           Inr ([[], '' '', [CHR 0x09]] @ invalid_names_body g, r))) \<and>
   (run_one_datapoint st \<longrightarrow>
      invalid_names_list st g r = Inr ([invalid_names_body g ! (r 0 mod 7)], r \<circ> Suc) \<and>
      invalid_values_list st g (Some ''ui'') r =
        Inr ([[[], '' '', invalid_names_body g ! (r 0 mod 7)] ! (r 1 mod 3)], (r \<circ> Suc) \<circ> Suc) \<and>
      [[], '' '', invalid_names_body g ! (r 0 mod 7)] ! (r 1 mod 3)
        \<in> set ([[], '' ''] @ invalid_names_body g) \<and>
      (interface \<in> {Some ''api'', Some ''cli'', None} \<longrightarrow>
         invalid_values_list st g interface r =
           Inr ([[[], '' '', [CHR 0x09], invalid_names_body g ! (r 0 mod 7)] ! (r 1 mod 4)],
                (r \<circ> Suc) \<circ> Suc) \<and>
         [[], '' '', [CHR 0x09], invalid_names_body g ! (r 0 mod 7)] ! (r 1 mod 4)
           \<in> set ([[], '' '', [CHR 0x09]] @ invalid_names_body g)))"
proof -
  have bad: "invalid_values_list st g interface r =
        Inl (InvalidArgumentError ''Valid interface values are api, cli, ui only'')"
    if "interface \<notin> {Some ''api'', Some ''cli'', Some ''ui'', None}"
    unfolding invalid_values_list_def
    using that by (intro datacheck_raise) (simp add: invalid_values_body_def)
  have whole: "invalid_values_list st g interface r = invalid_values_body st g interface r"
    if "\<not> run_one_datapoint st" for interface
    using that by (simp add: invalid_values_list_def datacheck_whole)
  have good: "\<exists>v. invalid_values_list st g interface r = Inr v"
    if i: "interface \<in> {Some ''api'', Some ''cli'', Some ''ui'', None}"
  proof (cases "run_one_datapoint st")
    case True
    show ?thesis
    proof (cases "interface = Some ''ui''")
      case ui: True
      then show ?thesis using invalid_values_one_ui [OF True, of g r] by simp
    next
      case False
      then have "interface \<in> {Some ''api'', Some ''cli'', None}" using i by auto
      then show ?thesis using invalid_values_one_other [OF True, of interface g r] by simp
    qed
  next
    case False
    then show ?thesis using i by (auto simp add: whole invalid_values_body_whole)
  qed
  have iff: "(\<exists>e. invalid_values_list st g interface r = Inl e) =
      (interface \<notin> {Some ''api'', Some ''cli'', Some ''ui'', None})"
    using bad good by (cases "interface \<in> {Some ''api'', Some ''cli'', Some ''ui'', None}") auto
  have w: "invalid_names_list st g r = Inr (invalid_names_body g, r) \<and>
      invalid_values_list st g (Some ''ui'') r = Inr ([[], '' ''] @ invalid_names_body g, r) \<and>
      (interface \<in> {Some ''api'', Some ''cli'', None} \<longrightarrow>
         invalid_values_list st g interface r =
           Inr ([[], '' '', [CHR 0x09]] @ invalid_names_body g, r))"
    if "\<not> run_one_datapoint st"
    using that by (auto simp add: whole invalid_values_body_whole invalid_names_whole)
  have one: "invalid_names_list st g r = Inr ([invalid_names_body g ! (r 0 mod 7)], r \<circ> Suc) \<and>
      invalid_values_list st g (Some ''ui'') r =
        Inr ([[[], '' '', invalid_names_body g ! (r 0 mod 7)] ! (r 1 mod 3)], (r \<circ> Suc) \<circ> Suc) \<and>
      [[], '' '', invalid_names_body g ! (r 0 mod 7)] ! (r 1 mod 3)
        \<in> set ([[], '' ''] @ invalid_names_body g) \<and>
      (interface \<in> {Some ''api'', Some ''cli'', None} \<longrightarrow>
         invalid_values_list st g interface r =
           Inr ([[[], '' '', [CHR 0x09], invalid_names_body g ! (r 0 mod 7)] ! (r 1 mod 4)],
                (r \<circ> Suc) \<circ> Suc) \<and>
         [[], '' '', [CHR 0x09], invalid_names_body g ! (r 0 mod 7)] ! (r 1 mod 4)
           \<in> set ([[], '' '', [CHR 0x09]] @ invalid_names_body g))"
    if o: "run_one_datapoint st"
    using invalid_names_one_exact [OF o, of g r] invalid_values_one_ui [OF o, of g r]
      invalid_values_one_other [OF o, of interface g r] ui_member [of g "r 0" "r 1"]
      other_member [of g "r 0" "r 1"]
    by blast
  show ?thesis
    using iff bad w one by blast
qed

text \<open>The theorem with the whole data set, for \<open>'ui'\<close>, \<open>None\<close> and an unknown interface,
  and with one data point, for \<open>'ui'\<close> and \<open>'cli'\<close>.\<close>

theorem invalid_values_list_contract_witness:
  "invalid_values_list whole_dataset fixed_gen (Some ''ui'') (\<lambda>k. k) =
     Inr ([[], '' '', ''alphanumeric'', ''alpha'', ''cjk'', ''latin1'', ''numeric'', ''utf8'', ''html''],
          (\<lambda>k. k)) \<and>
   invalid_values_list whole_dataset fixed_gen None (\<lambda>k. k) =
     Inr ([[], '' '', [CHR 0x09], ''alphanumeric'', ''alpha'', ''cjk'', ''latin1'', ''numeric'',
           ''utf8'', ''html''], (\<lambda>k. k)) \<and>
   invalid_values_list whole_dataset fixed_gen (Some ''gui'') (\<lambda>k. k) =
     Inl (InvalidArgumentError ''Valid interface values are api, cli, ui only'') \<and>
   map_sum id fst (invalid_values_list one_datapoint fixed_gen (Some ''ui'') (\<lambda>k. k)) =
     Inr ['' ''] \<and>
   map_sum id fst (invalid_values_list one_datapoint fixed_gen (Some ''cli'') (\<lambda>k. 2 + k)) =
     Inr [''cjk'']"
  using invalid_values_list_contract [of whole_dataset fixed_gen "Some ''ui''" "\<lambda>k. k"]
    invalid_values_list_contract [of whole_dataset fixed_gen None "\<lambda>k. k"]
    invalid_values_list_contract [of whole_dataset fixed_gen "Some ''gui''" "\<lambda>k. k"]
    invalid_values_list_contract [of one_datapoint fixed_gen "Some ''ui''" "\<lambda>k. k"]
    invalid_values_list_contract [of one_datapoint fixed_gen "Some ''cli''" "\<lambda>k. 2 + k"]
  by (simp add: whole_dataset_def one_datapoint_def fixed_gen_def invalid_names_body_def)

text \<open>
  With \<open>settings.run_one_datapoint\<close> the result for \<open>'ui'\<close> is one value, here the blank,
  and not the two empty values followed by the invalid-names list, whether that list is
  the one value \<open>invalid_names_list\<close> returns in this mode or all seven.
\<close>

theorem invalid_values_one_datapoint_counterexample:
  "map_sum id fst (invalid_values_list one_datapoint fixed_gen (Some ''ui'') (\<lambda>k. k)) = Inr ['' ''] \<and>
   map_sum id fst (invalid_names_list one_datapoint fixed_gen (\<lambda>k. k)) = Inr [''alphanumeric''] \<and>
   ['' ''] \<noteq> [[], '' ''] @ [''alphanumeric''] \<and>
   ['' ''] \<noteq> [[], '' ''] @ invalid_names_body fixed_gen"
  by (simp add: invalid_values_list_def invalid_values_body_def invalid_names_list_def
      datacheck_def random_choice_def one_datapoint_def fixed_gen_def invalid_names_body_def)

subsection \<open>The completion loop of the review page\<close>

lemma record_call_simps [simp]:
  "log (record_call e b) = log b @ [e]"
  "found (record_call e b) = found b"
  "fault (record_call e b) = fault b"
  by (simp_all add: record_call_def)

lemma occurrence_record_call [simp]:
  "occurrence (record_call e b) e' = occurrence b e' + (if e = e' then 1 else 0)"
  by (simp add: occurrence_def)

lemma refresh_cases:
  "refresh b = ((case fault b Refresh (occurrence b Refresh) of None \<Rightarrow> Inr () | Some x \<Rightarrow> Inl x),
                record_call Refresh b)"
  by (simp add: refresh_def interact_def)

lemma snd_sleep [simp]: "snd (sleep n b) = record_call (Sleep n) b"
  by (simp add: sleep_def)

text \<open>One unfolding of the refresh loop for each outcome of the refresh.\<close>

lemma refresh_loop_stop:
  "\<not> (attempts < 40 \<and> \<not> success) \<Longrightarrow> review_deployment_refresh attempts success b = b"
  by (subst review_deployment_refresh.simps) auto

lemma refresh_loop_ok:
  "attempts < 40 \<Longrightarrow> fault b Refresh (occurrence b Refresh) = None \<Longrightarrow>
   review_deployment_refresh attempts False b = record_call Refresh b"
  by (subst review_deployment_refresh.simps)
     (simp add: refresh_cases refresh_loop_stop)

lemma refresh_loop_fail:
  "attempts < 40 \<Longrightarrow> fault b Refresh (occurrence b Refresh) \<noteq> None \<Longrightarrow>
   review_deployment_refresh attempts False b =
   review_deployment_refresh (Suc attempts) False (record_call (Sleep 15) (record_call Refresh b))"
  by (subst review_deployment_refresh.simps)
     (auto simp add: refresh_cases)

lemma refresh_loop_fails:
  "attempts + m \<le> 40 \<Longrightarrow>
   \<forall>i<m. fault b Refresh (occurrence b Refresh + i) \<noteq> None \<Longrightarrow>
   review_deployment_refresh attempts False b =
   review_deployment_refresh (attempts + m) False
     (b\<lparr>log := log b @ concat (replicate m [Refresh, Sleep 15])\<rparr>)"
proof (induction m arbitrary: attempts b)
  case 0
  then show ?case by simp
next
  case (Suc m)
  let ?b1 = "record_call (Sleep 15) (record_call Refresh b)"
  have f0: "fault b Refresh (occurrence b Refresh) \<noteq> None"
    using Suc.prems(2) by (metis add.right_neutral zero_less_Suc)
  have step: "review_deployment_refresh attempts False b =
              review_deployment_refresh (Suc attempts) False ?b1"
    using Suc.prems(1) f0 by (intro refresh_loop_fail) auto
  have rest: "\<forall>i<m. fault ?b1 Refresh (occurrence ?b1 Refresh + i) \<noteq> None"
    using Suc.prems(2) by (auto simp: less_Suc_eq_0_disj)
  have "review_deployment_refresh (Suc attempts) False ?b1 =
        review_deployment_refresh (Suc attempts + m) False
          (?b1\<lparr>log := log ?b1 @ concat (replicate m [Refresh, Sleep 15])\<rparr>)"
    using Suc.prems(1) rest by (intro Suc.IH) auto
  then show ?case
    using step by (simp add: record_call_def)
qed


text \<open>What the refresh loop leaves alone, and how many calls it makes.\<close>

lemma refresh_loop_props:
  "found (review_deployment_refresh a s b) = found b \<and>
   fault (review_deployment_refresh a s b) = fault b \<and>
   (\<forall>e. e \<noteq> Refresh \<longrightarrow> e \<noteq> Sleep 15 \<longrightarrow>
        occurrence (review_deployment_refresh a s b) e = occurrence b e) \<and>
   occurrence (review_deployment_refresh a s b) Refresh \<le> occurrence b Refresh + (40 - a) \<and>
   occurrence b Refresh \<le> occurrence (review_deployment_refresh a s b) Refresh"
proof (cases s)
  case True
  then show ?thesis by (simp add: refresh_loop_stop)
next
  case False
  have "found (review_deployment_refresh a False b) = found b \<and>
        fault (review_deployment_refresh a False b) = fault b \<and>
        (\<forall>e. e \<noteq> Refresh \<longrightarrow> e \<noteq> Sleep 15 \<longrightarrow>
             occurrence (review_deployment_refresh a False b) e = occurrence b e) \<and>
        occurrence (review_deployment_refresh a False b) Refresh \<le> occurrence b Refresh + (40 - a) \<and>
        occurrence b Refresh \<le> occurrence (review_deployment_refresh a False b) Refresh"
  proof (induction "40 - a" arbitrary: a b)
    case 0
    then show ?case by (simp add: refresh_loop_stop)
  next
    case (Suc k)
    then have lt: "a < 40" and k: "k = 40 - Suc a" by simp_all
    show ?case
    proof (cases "fault b Refresh (occurrence b Refresh)")
      case None
      then show ?thesis using lt by (auto simp add: refresh_loop_ok)
    next
      case (Some x)
      let ?b1 = "record_call (Sleep 15) (record_call Refresh b)"
      have step: "review_deployment_refresh a False b = review_deployment_refresh (Suc a) False ?b1"
        using lt Some by (simp add: refresh_loop_fail)
      show ?thesis
        using Suc.hyps(1) [OF k, of ?b1] lt unfolding step by auto
    qed
  qed
  then show ?thesis using False by simp
qed

lemma refresh_loop_at_least_one:
  "occurrence b Refresh < occurrence (review_deployment_refresh 0 False b) Refresh"
proof (cases "fault b Refresh (occurrence b Refresh)")
  case None
  then show ?thesis by (simp add: refresh_loop_ok)
next
  case (Some x)
  let ?b1 = "record_call (Sleep 15) (record_call Refresh b)"
  have "review_deployment_refresh 0 False b = review_deployment_refresh (Suc 0) False ?b1"
    using Some by (simp add: refresh_loop_fail)
  moreover have "occurrence ?b1 Refresh \<le> occurrence (review_deployment_refresh (Suc 0) False ?b1) Refresh"
    using refresh_loop_props [of "Suc 0" False ?b1] by simp
  ultimately show ?thesis by simp
qed


text \<open>One round of the outer loop, for each outcome of the click.\<close>

lemma loop_round_clicked:
  "locators ''rhci.next'' = Some nxt \<Longrightarrow>
   fault b (Click nxt None) (occurrence b (Click nxt None)) = None \<Longrightarrow>
   review_deployment_loop locators (Suc n) b =
     (Inr (), record_call (Click nxt None) (record_call (Sleep 90) b))"
  by (simp add: act_bind_def locators_get_def getitem_def click_def interact_def)

lemma loop_round_failed:
  "locators ''rhci.next'' = Some nxt \<Longrightarrow>
   fault b (Click nxt None) (occurrence b (Click nxt None)) \<noteq> None \<Longrightarrow>
   review_deployment_loop locators (Suc n) b =
     review_deployment_loop locators n
       (review_deployment_refresh 0 False (record_call (Click nxt None) (record_call (Sleep 90) b)))"
  by (auto simp add: act_bind_def locators_get_def getitem_def click_def interact_def)

lemma loop_failed_rounds:
  assumes "locators ''rhci.next'' = Some nxt"
    and "\<forall>k<m. fault b (Click nxt None) (occurrence b (Click nxt None) + k) \<noteq> None"
  shows "\<exists>b'. review_deployment_loop locators (m + n) b = review_deployment_loop locators n b' \<and>
              found b' = found b \<and> fault b' = fault b \<and>
              occurrence b' (Click nxt None) = occurrence b (Click nxt None) + m \<and>
              occurrence b' (Sleep 90) = occurrence b (Sleep 90) + m \<and>
              occurrence b Refresh + m \<le> occurrence b' Refresh \<and>
              occurrence b' Refresh \<le> occurrence b Refresh + 40 * m \<and>
              ((\<forall>j. fault b Refresh j = None) \<longrightarrow>
                 occurrence b' Refresh = occurrence b Refresh + m)"
  using assms(2)
proof (induction m arbitrary: b)
  case 0
  then show ?case by auto
next
  case (Suc m)
  let ?b1 = "record_call (Click nxt None) (record_call (Sleep 90) b)"
  let ?b2 = "review_deployment_refresh 0 False ?b1"
  have f0: "fault b (Click nxt None) (occurrence b (Click nxt None)) \<noteq> None"
    using Suc.prems by (metis add.right_neutral zero_less_Suc)
  have round: "review_deployment_loop locators (Suc m + n) b = review_deployment_loop locators (m + n) ?b2"
    using loop_round_failed [of locators nxt b "m + n"] assms(1) f0 by simp
  have frame: "found ?b2 = found b" "fault ?b2 = fault b"
    "occurrence ?b2 (Click nxt None) = Suc (occurrence b (Click nxt None))"
    "occurrence ?b2 (Sleep 90) = Suc (occurrence b (Sleep 90))"
    "occurrence ?b2 Refresh \<le> occurrence b Refresh + 40"
    "occurrence b Refresh < occurrence ?b2 Refresh"
    using refresh_loop_props [of 0 False ?b1] refresh_loop_at_least_one [of ?b1] by simp_all
  have one: "(\<forall>j. fault b Refresh j = None) \<longrightarrow> occurrence ?b2 Refresh = Suc (occurrence b Refresh)"
    by (simp add: refresh_loop_ok)
  have rest: "\<forall>k<m. fault ?b2 (Click nxt None) (occurrence ?b2 (Click nxt None) + k) \<noteq> None"
    using Suc.prems frame by (auto simp: less_Suc_eq_0_disj)
  from Suc.IH [OF rest] obtain b' where b':
    "review_deployment_loop locators (m + n) ?b2 = review_deployment_loop locators n b'"
    "found b' = found ?b2" "fault b' = fault ?b2"
    "occurrence b' (Click nxt None) = occurrence ?b2 (Click nxt None) + m"
    "occurrence b' (Sleep 90) = occurrence ?b2 (Sleep 90) + m"
    "occurrence ?b2 Refresh + m \<le> occurrence b' Refresh"
    "occurrence b' Refresh \<le> occurrence ?b2 Refresh + 40 * m"
    "(\<forall>j. fault ?b2 Refresh j = None) \<longrightarrow> occurrence b' Refresh = occurrence ?b2 Refresh + m"
    by blast
  show ?case
  proof (intro exI [of _ b'] conjI)
    show "review_deployment_loop locators (Suc m + n) b = review_deployment_loop locators n b'"
      using round b'(1) by simp
    show "found b' = found b" "fault b' = fault b" using b' frame by simp_all
    show "occurrence b' (Click nxt None) = occurrence b (Click nxt None) + Suc m"
      using b'(4) frame(3) by simp
    show "occurrence b' (Sleep 90) = occurrence b (Sleep 90) + Suc m"
      using b'(5) frame(4) by simp
    show "occurrence b Refresh + Suc m \<le> occurrence b' Refresh"
      using b'(6) frame(6) by simp
    show "occurrence b' Refresh \<le> occurrence b Refresh + 40 * Suc m"
      using b'(7) frame(5) by simp
    show "(\<forall>j. fault b Refresh j = None) \<longrightarrow> occurrence b' Refresh = occurrence b Refresh + Suc m"
      using b'(8) one frame(2) by simp
  qed
qed


text \<open>
  Claim C1. Take any run of \<open>_page_review_deployment\<close> that reaches the loop (the deploy
  button is registered and its click returns) and in which each of the 240 clicks on the next
  button raises, whatever the refreshes in between do. The run ends with the exception
  \<open>Exception('Next button never became available to click')\<close>, raised by the
  \<^verbatim>\<open>else\<close> branch after exactly 240 rounds: 240 sleeps of 90 seconds and 240 clicks
  on the next button have been made. The exception is the plain \<open>Exception\<close>, not the
  element-not-found exception of the driver nor any other driver exception; what the
  clicks themselves raised has been swallowed.
\<close>

theorem completion_loop_exhausted:
  assumes "locators ''rhci.deploy'' = Some dpl"
    and "fault b (Click dpl (Some 300)) (occurrence b (Click dpl (Some 300))) = None"
    and "locators ''rhci.next'' = Some nxt"
    and "\<forall>k<240. fault b (Click nxt None) (occurrence b (Click nxt None) + k) \<noteq> None"
  shows "fst (page_review_deployment locators b) =
           Inl (Exception ''Next button never became available to click'') \<and>
         occurrence (snd (page_review_deployment locators b)) (Click nxt None) =
           occurrence b (Click nxt None) + 240 \<and>
         occurrence (snd (page_review_deployment locators b)) (Sleep 90) =
           occurrence b (Sleep 90) + 240 \<and>
         (\<forall>m. fst (page_review_deployment locators b) \<noteq> Inl (NoSuchElementException m)) \<and>
         (\<forall>m. fst (page_review_deployment locators b) \<noteq> Inl (WebDriverException m))"
proof -
  let ?b0 = "record_call (Click dpl (Some 300)) b"
  have start: "page_review_deployment locators b = review_deployment_loop locators 240 ?b0"
    using assms(1,2)
    by (simp add: page_review_deployment_def act_then_def act_bind_def locators_get_def
        getitem_def click_def interact_def)
  have fails: "\<forall>k<240. fault ?b0 (Click nxt None) (occurrence ?b0 (Click nxt None) + k) \<noteq> None"
    using assms(4) by simp
  from loop_failed_rounds [where locators = locators and nxt = nxt and m = 240 and b = ?b0 and n = 0]
    assms(3) fails
  obtain b' where
    "review_deployment_loop locators 240 ?b0 = review_deployment_loop locators 0 b'"
    "occurrence b' (Click nxt None) = occurrence ?b0 (Click nxt None) + 240"
    "occurrence b' (Sleep 90) = occurrence ?b0 (Sleep 90) + 240"
    by auto
  then show ?thesis
    unfolding start by simp
qed

text \<open>The theorem at a script whose next button never becomes clickable.\<close>

theorem completion_loop_exhausted_witness:
  "fst (page_review_deployment wizard_locators (script 240 0)) =
     Inl (Exception ''Next button never became available to click'') \<and>
   occurrence (snd (page_review_deployment wizard_locators (script 240 0))) (Click next_button None) = 240 \<and>
   occurrence (snd (page_review_deployment wizard_locators (script 240 0))) (Sleep 90) = 240"
  using completion_loop_exhausted
    [of wizard_locators "(''xpath'', ''//button[@id=deploy]'')" "script 240 0" next_button]
  by (simp add: wizard_locators_def next_button_def script_def occurrence_def)


lemma occurrence_log_append:
  "occurrence (b\<lparr>log := log b @ es\<rparr>) e = occurrence b e + count_list es e"
  by (simp add: occurrence_def)

lemma count_refresh_rounds [simp]:
  "count_list (concat (replicate m [Refresh, Sleep 15])) Refresh = m"
  by (induction m) simp_all

lemma refresh_loop_exact:
  assumes "m \<le> 40"
    and "\<forall>i<m. fault b Refresh (occurrence b Refresh + i) \<noteq> None"
    and "m < 40 \<longrightarrow> fault b Refresh (occurrence b Refresh + m) = None"
  shows "review_deployment_refresh 0 False b =
           b\<lparr>log := log b @ concat (replicate m [Refresh, Sleep 15]) @
                              (if m < 40 then [Refresh] else [])\<rparr>"
proof -
  let ?b1 = "b\<lparr>log := log b @ concat (replicate m [Refresh, Sleep 15])\<rparr>"
  have steps: "review_deployment_refresh 0 False b = review_deployment_refresh m False ?b1"
    using refresh_loop_fails [of 0 m b] assms(1,2) by simp
  show ?thesis
  proof (cases "m < 40")
    case True
    have "fault ?b1 Refresh (occurrence ?b1 Refresh) = None"
      using assms(3) True by (simp add: occurrence_log_append)
    then have "review_deployment_refresh m False ?b1 = record_call Refresh ?b1"
      using True by (simp add: refresh_loop_ok)
    then show ?thesis using steps True by (simp add: record_call_def)
  next
    case False
    then show ?thesis using steps by (simp add: refresh_loop_stop)
  qed
qed

lemma refresh_loop_log:
  "\<exists>es. log (review_deployment_refresh a s b) = log b @ es"
proof (cases s)
  case True
  then show ?thesis by (simp add: refresh_loop_stop)
next
  case False
  have "\<exists>es. log (review_deployment_refresh a False b) = log b @ es"
  proof (induction "40 - a" arbitrary: a b)
    case 0
    then show ?case by (simp add: refresh_loop_stop)
  next
    case (Suc k)
    then have lt: "a < 40" and k: "k = 40 - Suc a" by simp_all
    show ?case
    proof (cases "fault b Refresh (occurrence b Refresh)")
      case None
      then show ?thesis using lt by (simp add: refresh_loop_ok)
    next
      case (Some x)
      let ?b1 = "record_call (Sleep 15) (record_call Refresh b)"
      have step: "review_deployment_refresh a False b = review_deployment_refresh (Suc a) False ?b1"
        using lt Some by (simp add: refresh_loop_fail)
      obtain es where "log (review_deployment_refresh (Suc a) False ?b1) = log ?b1 @ es"
        using Suc.hyps(1) [OF k, of ?b1] by blast
      then show ?thesis unfolding step by simp
    qed
  qed
  then show ?thesis using False by simp
qed

lemma loop_round_unregistered:
  "locators ''rhci.next'' = None \<Longrightarrow>
   review_deployment_loop locators (Suc n) b =
     review_deployment_loop locators n
       (review_deployment_refresh 0 False (record_call (Sleep 90) b))"
  by (simp add: act_bind_def locators_get_def getitem_def)

lemma loop_log:
  "\<exists>es. log (snd (review_deployment_loop locators n b)) = log b @ es"
proof (induction n arbitrary: b)
  case 0
  then show ?case by simp
next
  case (Suc n)
  show ?case
  proof (cases "locators ''rhci.next''")
    case None
    let ?b1 = "record_call (Sleep 90) b"
    obtain es where "log (review_deployment_refresh 0 False ?b1) = log ?b1 @ es"
      using refresh_loop_log by blast
    moreover obtain fs where "log (snd (review_deployment_loop locators n
          (review_deployment_refresh 0 False ?b1))) = log (review_deployment_refresh 0 False ?b1) @ fs"
      using Suc.IH by blast
    ultimately show ?thesis
      using loop_round_unregistered [of locators n b] None by simp
  next
    case (Some nxt)
    let ?b1 = "record_call (Click nxt None) (record_call (Sleep 90) b)"
    show ?thesis
    proof (cases "fault b (Click nxt None) (occurrence b (Click nxt None))")
      case None
      then show ?thesis using loop_round_clicked [of locators nxt b n] Some by simp
    next
      case (Some x)
      then have f: "fault b (Click nxt None) (occurrence b (Click nxt None)) \<noteq> None" by simp
      have round: "review_deployment_loop locators (Suc n) b =
             review_deployment_loop locators n (review_deployment_refresh 0 False ?b1)"
        using loop_round_failed [of locators nxt b n] \<open>locators ''rhci.next'' = Some nxt\<close> f by blast
      obtain es where "log (review_deployment_refresh 0 False ?b1) = log ?b1 @ es"
        using refresh_loop_log by blast
      moreover obtain fs where "log (snd (review_deployment_loop locators n
          (review_deployment_refresh 0 False ?b1))) = log (review_deployment_refresh 0 False ?b1) @ fs"
        using Suc.IH by blast
      ultimately show ?thesis unfolding round by simp
    qed
  qed
qed

lemma loop_next_attempt:
  assumes "locators ''rhci.next'' = Some nxt"
  shows "\<exists>rest. log (snd (review_deployment_loop locators (Suc n) b)) =
                  log b @ [Sleep 90, Click nxt None] @ rest"
proof (cases "fault b (Click nxt None) (occurrence b (Click nxt None))")
  case None
  then show ?thesis using loop_round_clicked [of locators nxt b n] assms by simp
next
  case (Some x)
  let ?b1 = "record_call (Click nxt None) (record_call (Sleep 90) b)"
  have f: "fault b (Click nxt None) (occurrence b (Click nxt None)) \<noteq> None" using Some by simp
  have round: "review_deployment_loop locators (Suc n) b =
         review_deployment_loop locators n (review_deployment_refresh 0 False ?b1)"
    using loop_round_failed [of locators nxt b n] assms f by blast
  obtain es where "log (review_deployment_refresh 0 False ?b1) = log ?b1 @ es"
    using refresh_loop_log by blast
  moreover obtain fs where "log (snd (review_deployment_loop locators n
      (review_deployment_refresh 0 False ?b1))) = log (review_deployment_refresh 0 False ?b1) @ fs"
    using loop_log by blast
  ultimately show ?thesis unfolding round by simp
qed

lemma loop_refresh_bound:
  "occurrence (snd (review_deployment_loop locators n b)) Refresh \<le> occurrence b Refresh + 40 * n"
proof (induction n arbitrary: b)
  case 0
  then show ?case by simp
next
  case (Suc n)
  show ?case
  proof (cases "locators ''rhci.next''")
    case None
    let ?b1 = "record_call (Sleep 90) b"
    have "occurrence (review_deployment_refresh 0 False ?b1) Refresh \<le> occurrence b Refresh + 40"
      using refresh_loop_props [of 0 False ?b1] by simp
    moreover have "occurrence (snd (review_deployment_loop locators n
          (review_deployment_refresh 0 False ?b1))) Refresh
        \<le> occurrence (review_deployment_refresh 0 False ?b1) Refresh + 40 * n"
      using Suc.IH by blast
    ultimately show ?thesis
      using loop_round_unregistered [of locators n b] None by simp
  next
    case (Some nxt)
    let ?b1 = "record_call (Click nxt None) (record_call (Sleep 90) b)"
    show ?thesis
    proof (cases "fault b (Click nxt None) (occurrence b (Click nxt None))")
      case None
      then show ?thesis using loop_round_clicked [of locators nxt b n] Some by simp
    next
      case (Some x)
      then have f: "fault b (Click nxt None) (occurrence b (Click nxt None)) \<noteq> None" by simp
      have round: "review_deployment_loop locators (Suc n) b =
             review_deployment_loop locators n (review_deployment_refresh 0 False ?b1)"
        using loop_round_failed [of locators nxt b n] \<open>locators ''rhci.next'' = Some nxt\<close> f by blast
      have "occurrence (review_deployment_refresh 0 False ?b1) Refresh \<le> occurrence b Refresh + 40"
        using refresh_loop_props [of 0 False ?b1] by simp
      moreover have "occurrence (snd (review_deployment_loop locators n
            (review_deployment_refresh 0 False ?b1))) Refresh
          \<le> occurrence (review_deployment_refresh 0 False ?b1) Refresh + 40 * n"
        using Suc.IH by blast
      ultimately show ?thesis unfolding round by simp
    qed
  qed
qed

lemma five_failed_refreshes:
  "concat (replicate 5 [Refresh, Sleep 15]) =
     [Refresh, Sleep 15, Refresh, Sleep 15, Refresh, Sleep 15, Refresh, Sleep 15, Refresh, Sleep 15]"
  by (simp add: eval_nat_numeral)

text \<open>A round whose click raises, with its refreshes, followed by what the loop does next.\<close>

lemma loop_failed_round_log:
  assumes reg: "locators ''rhci.next'' = Some nxt"
    and click: "fault b (Click nxt None) (occurrence b (Click nxt None)) \<noteq> None"
    and m: "m \<le> 40"
    and fails: "\<forall>i<m. fault b Refresh (occurrence b Refresh + i) \<noteq> None"
    and ok: "m < 40 \<longrightarrow> fault b Refresh (occurrence b Refresh + m) = None"
  shows "review_deployment_loop locators (Suc n) b =
           review_deployment_loop locators n
             (b\<lparr>log := log b @ [Sleep 90, Click nxt None] @ concat (replicate m [Refresh, Sleep 15]) @
                                (if m < 40 then [Refresh] else [])\<rparr>)"
proof -
  let ?b1 = "record_call (Click nxt None) (record_call (Sleep 90) b)"
  have round: "review_deployment_loop locators (Suc n) b =
               review_deployment_loop locators n (review_deployment_refresh 0 False ?b1)"
    using loop_round_failed [of locators nxt b n] reg click by blast
  have "review_deployment_refresh 0 False ?b1 =
        ?b1\<lparr>log := log ?b1 @ concat (replicate m [Refresh, Sleep 15]) @
                              (if m < 40 then [Refresh] else [])\<rparr>"
    using m fails ok by (intro refresh_loop_exact) simp_all
  then show ?thesis using round by (simp add: record_call_def)
qed


text \<open>
  Claim C2. After a failed click the refresh loop calls the refresh at most 40 times, so a
  run of \<open>n\<close> rounds of the outer loop makes at most \<open>40 * n\<close> refreshes. The calls of
  the refresh loop are these: when the first \<open>m\<close> refreshes raise (\<open>m \<le> 40\<close>) and, for
  \<open>m < 40\<close>, the next one returns, the loop makes the \<open>m\<close> failing calls, each followed by a
  sleep of 15 seconds, then the call that returns if there is one, and nothing else.
  In a run of the outer loop whose first click raises, the log of the run therefore goes
  on with the sleep of 90 seconds, the click, these refreshes and sleeps and, when a round
  is left, the sleep of 90 seconds and the click of the next attempt. In particular, with
  five refreshes that raise followed by one that returns, the run logs exactly five failed
  refreshes, each with its sleep of 15 seconds, the sixth refresh, and then the next
  attempt; when no round is left it ends there with the exception of the
  \<^verbatim>\<open>else\<close> branch.
\<close>

theorem refresh_retry_budget:
  "occurrence (review_deployment_refresh 0 False b) Refresh \<le> occurrence b Refresh + 40 \<and>
   occurrence (snd (review_deployment_loop locators n b)) Refresh \<le> occurrence b Refresh + 40 * n \<and>
   (m \<le> 40 \<and> (\<forall>i<m. fault b Refresh (occurrence b Refresh + i) \<noteq> None) \<and>
      (m < 40 \<longrightarrow> fault b Refresh (occurrence b Refresh + m) = None) \<longrightarrow>
    review_deployment_refresh 0 False b =
      b\<lparr>log := log b @ concat (replicate m [Refresh, Sleep 15]) @
                         (if m < 40 then [Refresh] else [])\<rparr>) \<and>
   (locators ''rhci.next'' = Some nxt \<and>
    fault b (Click nxt None) (occurrence b (Click nxt None)) \<noteq> None \<and>
    m \<le> 40 \<and> (\<forall>i<m. fault b Refresh (occurrence b Refresh + i) \<noteq> None) \<and>
    (m < 40 \<longrightarrow> fault b Refresh (occurrence b Refresh + m) = None) \<longrightarrow>
    (\<exists>rest. log (snd (review_deployment_loop locators (Suc (Suc n)) b)) =
       log b @ [Sleep 90, Click nxt None] @ concat (replicate m [Refresh, Sleep 15]) @
         (if m < 40 then [Refresh] else []) @ [Sleep 90, Click nxt None] @ rest)) \<and>
   (locators ''rhci.next'' = Some nxt \<and>
    fault b (Click nxt None) (occurrence b (Click nxt None)) \<noteq> None \<and>
    (\<forall>i<5. fault b Refresh (occurrence b Refresh + i) \<noteq> None) \<and>
    fault b Refresh (occurrence b Refresh + 5) = None \<longrightarrow>
    review_deployment_loop locators (Suc n) b =
      review_deployment_loop locators n
        (b\<lparr>log := log b @ [Sleep 90, Click nxt None,
                             Refresh, Sleep 15, Refresh, Sleep 15, Refresh, Sleep 15,
                             Refresh, Sleep 15, Refresh, Sleep 15, Refresh]\<rparr>) \<and>
    (\<exists>rest. log (snd (review_deployment_loop locators (Suc (Suc n)) b)) =
       log b @ [Sleep 90, Click nxt None,
                Refresh, Sleep 15, Refresh, Sleep 15, Refresh, Sleep 15,
                Refresh, Sleep 15, Refresh, Sleep 15, Refresh,
                Sleep 90, Click nxt None] @ rest) \<and>
    review_deployment_loop locators (Suc 0) b =
      (Inl (Exception ''Next button never became available to click''),
       b\<lparr>log := log b @ [Sleep 90, Click nxt None,
                            Refresh, Sleep 15, Refresh, Sleep 15, Refresh, Sleep 15,
                            Refresh, Sleep 15, Refresh, Sleep 15, Refresh]\<rparr>))"
proof (intro conjI impI)
  show "occurrence (review_deployment_refresh 0 False b) Refresh \<le> occurrence b Refresh + 40"
    using refresh_loop_props [of 0 False b] by simp
next
  show "occurrence (snd (review_deployment_loop locators n b)) Refresh \<le> occurrence b Refresh + 40 * n"
    by (rule loop_refresh_bound)
next
  assume "m \<le> 40 \<and> (\<forall>i<m. fault b Refresh (occurrence b Refresh + i) \<noteq> None) \<and>
          (m < 40 \<longrightarrow> fault b Refresh (occurrence b Refresh + m) = None)"
  then show "review_deployment_refresh 0 False b =
      b\<lparr>log := log b @ concat (replicate m [Refresh, Sleep 15]) @
                         (if m < 40 then [Refresh] else [])\<rparr>"
    using refresh_loop_exact [of m b] by blast
next
  assume a: "locators ''rhci.next'' = Some nxt \<and>
    fault b (Click nxt None) (occurrence b (Click nxt None)) \<noteq> None \<and>
    m \<le> 40 \<and> (\<forall>i<m. fault b Refresh (occurrence b Refresh + i) \<noteq> None) \<and>
    (m < 40 \<longrightarrow> fault b Refresh (occurrence b Refresh + m) = None)"
  let ?b1 = "b\<lparr>log := log b @ [Sleep 90, Click nxt None] @ concat (replicate m [Refresh, Sleep 15]) @
                                (if m < 40 then [Refresh] else [])\<rparr>"
  have round: "review_deployment_loop locators (Suc (Suc n)) b =
               review_deployment_loop locators (Suc n) ?b1"
    using a loop_failed_round_log [of locators nxt b m "Suc n"] by blast
  obtain rest where "log (snd (review_deployment_loop locators (Suc n) ?b1)) =
      log ?b1 @ [Sleep 90, Click nxt None] @ rest"
    using a loop_next_attempt [of locators nxt n ?b1] by blast
  then have "log (snd (review_deployment_loop locators (Suc (Suc n)) b)) =
       log b @ [Sleep 90, Click nxt None] @ concat (replicate m [Refresh, Sleep 15]) @
         (if m < 40 then [Refresh] else []) @ [Sleep 90, Click nxt None] @ rest"
    unfolding round by simp
  then show "(\<exists>rest. log (snd (review_deployment_loop locators (Suc (Suc n)) b)) =
       log b @ [Sleep 90, Click nxt None] @ concat (replicate m [Refresh, Sleep 15]) @
         (if m < 40 then [Refresh] else []) @ [Sleep 90, Click nxt None] @ rest)" by blast
next
  assume a: "locators ''rhci.next'' = Some nxt \<and>
    fault b (Click nxt None) (occurrence b (Click nxt None)) \<noteq> None \<and>
    (\<forall>i<5. fault b Refresh (occurrence b Refresh + i) \<noteq> None) \<and>
    fault b Refresh (occurrence b Refresh + 5) = None"
  have five: "concat (replicate 5 [Refresh, Sleep 15]) @ (if (5::nat) < 40 then [Refresh] else []) =
      [Refresh, Sleep 15, Refresh, Sleep 15, Refresh, Sleep 15,
       Refresh, Sleep 15, Refresh, Sleep 15, Refresh]"
    by (simp add: eval_nat_numeral)
  have eq: "review_deployment_loop locators (Suc k) b =
      review_deployment_loop locators k
        (b\<lparr>log := log b @ [Sleep 90, Click nxt None,
                             Refresh, Sleep 15, Refresh, Sleep 15, Refresh, Sleep 15,
                             Refresh, Sleep 15, Refresh, Sleep 15, Refresh]\<rparr>)" for k
    using a loop_failed_round_log [of locators nxt b 5 k] five by simp
  show "review_deployment_loop locators (Suc n) b =
      review_deployment_loop locators n
        (b\<lparr>log := log b @ [Sleep 90, Click nxt None,
                             Refresh, Sleep 15, Refresh, Sleep 15, Refresh, Sleep 15,
                             Refresh, Sleep 15, Refresh, Sleep 15, Refresh]\<rparr>)" by (rule eq)
  let ?b1 = "b\<lparr>log := log b @ [Sleep 90, Click nxt None,
                             Refresh, Sleep 15, Refresh, Sleep 15, Refresh, Sleep 15,
                             Refresh, Sleep 15, Refresh, Sleep 15, Refresh]\<rparr>"
  obtain rest where "log (snd (review_deployment_loop locators (Suc n) ?b1)) =
      log ?b1 @ [Sleep 90, Click nxt None] @ rest"
    using a loop_next_attempt [of locators nxt n ?b1] by blast
  then have "log (snd (review_deployment_loop locators (Suc (Suc n)) b)) =
       log b @ [Sleep 90, Click nxt None,
                Refresh, Sleep 15, Refresh, Sleep 15, Refresh, Sleep 15,
                Refresh, Sleep 15, Refresh, Sleep 15, Refresh,
                Sleep 90, Click nxt None] @ rest"
    unfolding eq [of "Suc n"] by simp
  then show "(\<exists>rest. log (snd (review_deployment_loop locators (Suc (Suc n)) b)) =
       log b @ [Sleep 90, Click nxt None,
                Refresh, Sleep 15, Refresh, Sleep 15, Refresh, Sleep 15,
                Refresh, Sleep 15, Refresh, Sleep 15, Refresh,
                Sleep 90, Click nxt None] @ rest)" by blast
  show "review_deployment_loop locators (Suc 0) b =
      (Inl (Exception ''Next button never became available to click''),
       b\<lparr>log := log b @ [Sleep 90, Click nxt None,
                            Refresh, Sleep 15, Refresh, Sleep 15, Refresh, Sleep 15,
                            Refresh, Sleep 15, Refresh, Sleep 15, Refresh]\<rparr>)"
    unfolding eq [of 0] by simp
qed

text \<open>The theorem at a script whose clicks and first five refreshes raise.\<close>

theorem refresh_retry_budget_witness:
  "occurrence (review_deployment_refresh 0 False (script 240 5)) Refresh \<le> 40 \<and>
   review_deployment_refresh 0 False (script 240 5) =
     (script 240 5)\<lparr>log := [Refresh, Sleep 15, Refresh, Sleep 15, Refresh, Sleep 15,
                              Refresh, Sleep 15, Refresh, Sleep 15, Refresh]\<rparr> \<and>
   (\<exists>rest. log (snd (review_deployment_loop wizard_locators (Suc (Suc 0)) (script 240 5))) =
       [Sleep 90, Click next_button None,
        Refresh, Sleep 15, Refresh, Sleep 15, Refresh, Sleep 15,
        Refresh, Sleep 15, Refresh, Sleep 15, Refresh,
        Sleep 90, Click next_button None] @ rest) \<and>
   review_deployment_loop wizard_locators (Suc 0) (script 240 5) =
     (Inl (Exception ''Next button never became available to click''),
      (script 240 5)\<lparr>log := [Sleep 90, Click next_button None,
                             Refresh, Sleep 15, Refresh, Sleep 15, Refresh, Sleep 15,
                             Refresh, Sleep 15, Refresh, Sleep 15, Refresh]\<rparr>)"
proof -
  have reg: "wizard_locators ''rhci.next'' = Some next_button"
    by (simp add: wizard_locators_def next_button_def)
  have click: "fault (script 240 5) (Click next_button None)
                 (occurrence (script 240 5) (Click next_button None)) \<noteq> None"
    by (simp add: script_def occurrence_def)
  have bad: "\<forall>i<5. fault (script 240 5) Refresh (occurrence (script 240 5) Refresh + i) \<noteq> None"
    by (simp add: script_def occurrence_def)
  have ok: "fault (script 240 5) Refresh (occurrence (script 240 5) Refresh + 5) = None"
    by (simp add: script_def occurrence_def)
  have start: "log (script 240 5) = []" "occurrence (script 240 5) Refresh = 0"
    by (simp_all add: script_def occurrence_def)
  show ?thesis
    using refresh_retry_budget [of "script 240 5" wizard_locators 0 5 next_button]
      reg click bad ok start five_failed_refreshes
    by (simp del: review_deployment_loop.simps add: review_deployment_loop.simps(1) occurrence_def)
qed

lemma loop_clicked_after:
  assumes "locators ''rhci.next'' = Some nxt"
    and "\<forall>k<m. fault b (Click nxt None) (occurrence b (Click nxt None) + k) \<noteq> None"
    and "fault b (Click nxt None) (occurrence b (Click nxt None) + m) = None"
  shows "fst (review_deployment_loop locators (Suc (m + n)) b) = Inr () \<and>
         occurrence (snd (review_deployment_loop locators (Suc (m + n)) b)) (Click nxt None) =
           occurrence b (Click nxt None) + Suc m \<and>
         occurrence (snd (review_deployment_loop locators (Suc (m + n)) b)) (Sleep 90) =
           occurrence b (Sleep 90) + Suc m \<and>
         occurrence b Refresh + m \<le>
           occurrence (snd (review_deployment_loop locators (Suc (m + n)) b)) Refresh \<and>
         occurrence (snd (review_deployment_loop locators (Suc (m + n)) b)) Refresh \<le>
           occurrence b Refresh + 40 * m \<and>
         ((\<forall>j. fault b Refresh j = None) \<longrightarrow>
            occurrence (snd (review_deployment_loop locators (Suc (m + n)) b)) Refresh =
              occurrence b Refresh + m)"
proof -
  from loop_failed_rounds [where locators = locators and nxt = nxt and m = m and b = b and n = "Suc n"]
    assms(1,2)
  obtain b' where b':
    "review_deployment_loop locators (m + Suc n) b = review_deployment_loop locators (Suc n) b'"
    "fault b' = fault b"
    "occurrence b' (Click nxt None) = occurrence b (Click nxt None) + m"
    "occurrence b' (Sleep 90) = occurrence b (Sleep 90) + m"
    "occurrence b Refresh + m \<le> occurrence b' Refresh"
    "occurrence b' Refresh \<le> occurrence b Refresh + 40 * m"
    "(\<forall>j. fault b Refresh j = None) \<longrightarrow> occurrence b' Refresh = occurrence b Refresh + m"
    by blast
  have "fault b' (Click nxt None) (occurrence b' (Click nxt None)) = None"
    using assms(3) b'(2,3) by simp
  then have "review_deployment_loop locators (Suc n) b' =
               (Inr (), record_call (Click nxt None) (record_call (Sleep 90) b'))"
    using assms(1) by (rule loop_round_clicked [rotated])
  then have "review_deployment_loop locators (Suc (m + n)) b =
               (Inr (), record_call (Click nxt None) (record_call (Sleep 90) b'))"
    using b'(1) by simp
  then show ?thesis
    using b'(3-7) by simp
qed

text \<open>
  Claim C3, as the code has it. When the first three clicks on the next button raise and
  the fourth returns, the loop returns normally after exactly four rounds (four sleeps of
  90 seconds, four clicks). Each of the three failed rounds runs the refresh loop, which
  calls the refresh at least once and at most 40 times: the run makes between 3 and 120
  refreshes, and exactly 3 when no refresh raises.
\<close>

theorem completion_after_three_absent:
  assumes "locators ''rhci.next'' = Some nxt"
    and "\<forall>k<3. fault b (Click nxt None) (occurrence b (Click nxt None) + k) \<noteq> None"
    and "fault b (Click nxt None) (occurrence b (Click nxt None) + 3) = None"
  shows "fst (review_deployment_loop locators 240 b) = Inr () \<and>
         occurrence (snd (review_deployment_loop locators 240 b)) (Click nxt None) =
           occurrence b (Click nxt None) + 4 \<and>
         occurrence (snd (review_deployment_loop locators 240 b)) (Sleep 90) =
           occurrence b (Sleep 90) + 4 \<and>
         occurrence b Refresh + 3 \<le> occurrence (snd (review_deployment_loop locators 240 b)) Refresh \<and>
         occurrence (snd (review_deployment_loop locators 240 b)) Refresh \<le> occurrence b Refresh + 120 \<and>
         ((\<forall>j. fault b Refresh j = None) \<longrightarrow>
            occurrence (snd (review_deployment_loop locators 240 b)) Refresh = occurrence b Refresh + 3)"
  using loop_clicked_after [where locators = locators and nxt = nxt and m = 3 and b = b and n = 236]
    assms
  by simp

text \<open>The theorem at a script whose next button is clickable at the fourth try.\<close>

theorem completion_after_three_absent_witness:
  "fst (review_deployment_loop wizard_locators 240 (script 3 0)) = Inr () \<and>
   occurrence (snd (review_deployment_loop wizard_locators 240 (script 3 0))) (Click next_button None) = 4 \<and>
   occurrence (snd (review_deployment_loop wizard_locators 240 (script 3 0))) (Sleep 90) = 4 \<and>
   occurrence (snd (review_deployment_loop wizard_locators 240 (script 3 0))) Refresh = 3"
  using completion_after_three_absent [of wizard_locators next_button "script 3 0"]
  by (simp add: wizard_locators_def next_button_def script_def occurrence_def)

text \<open>
  The claim as the specification words it, with no refresh at all, fails on that script:
  the availability is absent, absent, absent, present, the loop returns, and the browser
  has been refreshed.
\<close>

theorem completion_refreshes_counterexample:
  "fault (script 3 0) (Click next_button None) 0 \<noteq> None \<and>
   fault (script 3 0) (Click next_button None) 1 \<noteq> None \<and>
   fault (script 3 0) (Click next_button None) 2 \<noteq> None \<and>
   fault (script 3 0) (Click next_button None) 3 = None \<and>
   fst (review_deployment_loop wizard_locators 240 (script 3 0)) = Inr () \<and>
   occurrence (snd (review_deployment_loop wizard_locators 240 (script 3 0))) Refresh \<noteq> 0"
  using loop_clicked_after [where locators = wizard_locators and nxt = next_button and m = 3
      and b = "script 3 0" and n = 236]
  by (simp add: wizard_locators_def next_button_def script_def occurrence_def)

subsection \<open>Optional fields of the configuration pages\<close>

lemma record_call_with_calls: "record_call e b = with_calls [e] b"
  by (simp add: record_call_def with_calls_def)

lemma with_calls_simps [simp]:
  "found (with_calls es b) = found b"
  "fault (with_calls es b) = fault b"
  "log (with_calls es b) = log b @ es"
  "occurrence (with_calls es b) e = occurrence b e + count_list es e"
  "with_calls es (with_calls fs b) = with_calls (fs @ es) b"
  by (simp_all add: with_calls_def occurrence_def)

lemma wait_for_registered:
  "locators name = Some l \<Longrightarrow>
   wait_for locators name t b =
     (Inr (found b (WaitUntilElement l t) (occurrence b (WaitUntilElement l t))),
      with_calls [WaitUntilElement l t] b)"
  by (simp add: wait_for_def act_bind_def locators_get_def getitem_def wait_until_element_def
      record_call_with_calls)

lemma update_field_registered:
  "locators name = Some l \<Longrightarrow> \<forall>e k. fault b e k = None \<Longrightarrow>
   update_field locators name v b = (Inr (), with_calls [TextFieldUpdate l v] b)"
  by (simp add: update_field_def act_bind_def locators_get_def getitem_def text_field_update_def
      interact_def record_call_with_calls)

lemma click_on_registered:
  "locators name = Some l \<Longrightarrow> \<forall>e k. fault b e k = None \<Longrightarrow>
   click_on locators name b = (Inr (), with_calls [Click l None] b)"
  by (simp add: click_on_def act_bind_def locators_get_def getitem_def click_def interact_def
      record_call_with_calls)

lemma when_update_field:
  "locators name = Some l \<Longrightarrow> \<forall>e k. fault b e k = None \<Longrightarrow>
   act_when c (update_field locators name v) b =
     (Inr (), with_calls (if c then [TextFieldUpdate l v] else []) b)"
  by (simp add: act_when_def update_field_registered act_return_def with_calls_def)

text \<open>The optional field: a wait of five seconds, and the update only when it found the field.\<close>

lemma optional_field:
  "locators name = Some l \<Longrightarrow> \<forall>e k. fault b e k = None \<Longrightarrow>
   act_bind (wait_for locators name (Some 5)) (\<lambda>confirm.
     act_when confirm (update_field locators name v)) b =
     (Inr (),
      with_calls (WaitUntilElement l (Some 5) #
              (if found b (WaitUntilElement l (Some 5)) (occurrence b (WaitUntilElement l (Some 5)))
               then [TextFieldUpdate l v] else [])) b)"
  by (simp add: act_bind_def wait_for_registered when_update_field)

lemma act_seq_step:
  "m b = (Inr x, b1) \<Longrightarrow> act_seq (m # ms) b = act_seq ms b1"
  by (simp add: act_then_def act_bind_def)

lemma act_seq_unfold:
  "act_seq (m # ms) b = (case m b of (Inl e, b1) \<Rightarrow> (Inl e, b1) | (Inr x, b1) \<Rightarrow> act_seq ms b1)"
  "act_seq [] b = (Inr (), b)"
  by (simp_all add: act_then_def act_bind_def act_return_def)

lemma act_seq_done: "act_seq [] b = (Inr (), b)"
  by (simp add: act_return_def)

lemma rhev_fields:
  assumes regs: "locators ''rhci.rhev_root_pass'' = Some root"
    "locators ''rhci.confirm_rhev_root_pass'' = Some confirm_root"
    "locators ''rhci.rhevm_adminpass'' = Some admin"
    "locators ''rhci.confirm_rhevm_adminpass'' = Some confirm_admin"
    "locators ''rhci.datacenter_name'' = Some dc"
    "locators ''rhci.cluster_name'' = Some cl"
    "locators ''rhci.cpu_type'' = Some cpu"
    and quiet: "\<forall>e k. fault b e k = None"
  shows "act_seq
            [update_field locators ''rhci.rhev_root_pass'' pass,
             act_bind (wait_for locators ''rhci.confirm_rhev_root_pass'' (Some 5)) (\<lambda>confirm.
               act_when confirm
                 (update_field locators ''rhci.confirm_rhev_root_pass'' pass)),
             update_field locators ''rhci.rhevm_adminpass'' pass,
             act_bind (wait_for locators ''rhci.confirm_rhevm_adminpass'' (Some 5)) (\<lambda>confirm.
               act_when confirm
                 (update_field locators ''rhci.confirm_rhevm_adminpass'' pass)),
             act_when (datacenter_name \<noteq> PNone)
               (update_field locators ''rhci.datacenter_name'' datacenter_name),
             act_when (cluster_name \<noteq> PNone)
               (update_field locators ''rhci.cluster_name'' cluster_name),
             act_when (cpu_type \<noteq> PNone)
               (update_field locators ''rhci.cpu_type'' cpu_type)] b =
         (Inr (), with_calls
          ([TextFieldUpdate root pass,
           WaitUntilElement confirm_root (Some 5)] @
          (if found b (WaitUntilElement confirm_root (Some 5))
                (occurrence b (WaitUntilElement confirm_root (Some 5)))
           then [TextFieldUpdate confirm_root pass] else []) @
          [TextFieldUpdate admin pass, WaitUntilElement confirm_admin (Some 5)] @
          (if found b (WaitUntilElement confirm_admin (Some 5))
                (occurrence b (WaitUntilElement confirm_admin (Some 5)) +
                 (if confirm_root = confirm_admin then 1 else 0))
           then [TextFieldUpdate confirm_admin pass] else []) @
          (if datacenter_name \<noteq> PNone then [TextFieldUpdate dc datacenter_name] else []) @
          (if cluster_name \<noteq> PNone then [TextFieldUpdate cl cluster_name] else []) @
          (if cpu_type \<noteq> PNone then [TextFieldUpdate cpu cpu_type] else [])) b)"
  using regs quiet
  by (simp add: act_seq_unfold update_field_registered optional_field when_update_field
      del: act_seq.simps)


lemma act_when_simps [simp]: "act_when True m = m" "act_when False m b = (Inr (), b)"
  by (simp_all add: act_when_def act_return_def)

lemma wait_until_element_unfold:
  "wait_until_element l t b =
     (Inr (found b (WaitUntilElement l t) (occurrence b (WaitUntilElement l t))),
      with_calls [WaitUntilElement l t] b)"
  by (simp add: wait_until_element_def record_call_with_calls)

lemma when_click:
  "\<forall>e k. fault b e k = None \<Longrightarrow>
   act_when c (click l t) b = (Inr (), with_calls (if c then [Click l t] else []) b)"
  by (simp add: act_when_def act_return_def click_def interact_def record_call_with_calls with_calls_def)

text \<open>
  Claim C7. On the RHEV configuration page and on the CloudForms configuration page each
  confirmation field (confirm root password, confirm admin password) is handled by a wait
  of five seconds whose result is only tested: when the wait finds nothing, the field is
  skipped, no text is entered into it and the page goes on with its next step; when it
  finds the field, the value entered into it is the value just entered into the primary
  field. In a session where no interaction raises, both pages return normally whatever
  the waits for the confirmation fields find, and the calls they make are exactly these.
\<close>

theorem optional_confirmation_fields:
  "(locators ''rhci.rhev_root_pass'' = Some root \<and>
    locators ''rhci.confirm_rhev_root_pass'' = Some confirm_root \<and>
    locators ''rhci.rhevm_adminpass'' = Some admin \<and>
    locators ''rhci.confirm_rhevm_adminpass'' = Some confirm_admin \<and>
    locators ''rhci.datacenter_name'' = Some dc \<and>
    locators ''rhci.cluster_name'' = Some cl \<and>
    locators ''rhci.cpu_type'' = Some cpu \<and>
    locators ''rhci.next'' = Some nxt \<and>
    (\<forall>e k. fault b e k = None) \<and>
    found b (WaitUntilElement root None) (occurrence b (WaitUntilElement root None)) \<longrightarrow>
    page_rhev_configuration locators pass datacenter_name cluster_name cpu_type b =
      (Inr (),
       with_calls
         ([WaitUntilElement root None, TextFieldUpdate root pass,
           WaitUntilElement confirm_root (Some 5)] @
          (if found b (WaitUntilElement confirm_root (Some 5))
                (occurrence b (WaitUntilElement confirm_root (Some 5)))
           then [TextFieldUpdate confirm_root pass] else []) @
          [TextFieldUpdate admin pass, WaitUntilElement confirm_admin (Some 5)] @
          (if found b (WaitUntilElement confirm_admin (Some 5))
                (occurrence b (WaitUntilElement confirm_admin (Some 5)) +
                 (if confirm_root = confirm_admin then 1 else 0))
           then [TextFieldUpdate confirm_admin pass] else []) @
          (if datacenter_name \<noteq> PNone then [TextFieldUpdate dc datacenter_name] else []) @
          (if cluster_name \<noteq> PNone then [TextFieldUpdate cl cluster_name] else []) @
          (if cpu_type \<noteq> PNone then [TextFieldUpdate cpu cpu_type] else []) @
          [Click nxt None]) b)) \<and>
   (locators ''rhci.cfme_root_password'' = Some cfme_root \<and>
    locators ''rhci.confirm_cfme_root_password'' = Some confirm_cfme_root \<and>
    locators ''rhci.cfme_admin_password'' = Some cfme_admin \<and>
    locators ''rhci.confirm_cfme_admin_password'' = Some confirm_cfme_admin \<and>
    locators ''rhci.next'' = Some nxt \<and>
    (\<forall>e k. fault b e k = None) \<longrightarrow>
    page_cloudforms_configuration locators install root_password admin_password b =
      (Inr (),
       with_calls
         ([WaitUntilElement install None] @
          (if found b (WaitUntilElement install None) (occurrence b (WaitUntilElement install None))
           then [Click install None] else []) @
          [Click nxt None, WaitUntilElement cfme_root None, TextFieldUpdate cfme_root root_password,
           WaitUntilElement confirm_cfme_root (Some 5)] @
          (if found b (WaitUntilElement confirm_cfme_root (Some 5))
                (occurrence b (WaitUntilElement confirm_cfme_root (Some 5)))
           then [TextFieldUpdate confirm_cfme_root root_password] else []) @
          [TextFieldUpdate cfme_admin admin_password, WaitUntilElement confirm_cfme_admin (Some 5)] @
          (if found b (WaitUntilElement confirm_cfme_admin (Some 5))
                (occurrence b (WaitUntilElement confirm_cfme_admin (Some 5)) +
                 (if confirm_cfme_root = confirm_cfme_admin then 1 else 0))
           then [TextFieldUpdate confirm_cfme_admin admin_password] else []) @
          [Click nxt None]) b))"
proof (intro conjI impI)
  assume a: "locators ''rhci.rhev_root_pass'' = Some root \<and>
    locators ''rhci.confirm_rhev_root_pass'' = Some confirm_root \<and>
    locators ''rhci.rhevm_adminpass'' = Some admin \<and>
    locators ''rhci.confirm_rhevm_adminpass'' = Some confirm_admin \<and>
    locators ''rhci.datacenter_name'' = Some dc \<and>
    locators ''rhci.cluster_name'' = Some cl \<and>
    locators ''rhci.cpu_type'' = Some cpu \<and>
    locators ''rhci.next'' = Some nxt \<and>
    (\<forall>e k. fault b e k = None) \<and>
    found b (WaitUntilElement root None) (occurrence b (WaitUntilElement root None))"
  let ?b1 = "with_calls [WaitUntilElement root None] b"
  have q1: "\<forall>e k. fault ?b1 e k = None" using a by simp
  note fields = rhev_fields [where locators = locators and b = ?b1 and root = root
      and confirm_root = confirm_root and admin = admin and confirm_admin = confirm_admin
      and dc = dc and cl = cl and cpu = cpu and pass = pass
      and datacenter_name = datacenter_name and cluster_name = cluster_name
      and cpu_type = cpu_type]
  show "page_rhev_configuration locators pass datacenter_name cluster_name cpu_type b =
      (Inr (),
       with_calls
         ([WaitUntilElement root None, TextFieldUpdate root pass,
           WaitUntilElement confirm_root (Some 5)] @
          (if found b (WaitUntilElement confirm_root (Some 5))
                (occurrence b (WaitUntilElement confirm_root (Some 5)))
           then [TextFieldUpdate confirm_root pass] else []) @
          [TextFieldUpdate admin pass, WaitUntilElement confirm_admin (Some 5)] @
          (if found b (WaitUntilElement confirm_admin (Some 5))
                (occurrence b (WaitUntilElement confirm_admin (Some 5)) +
                 (if confirm_root = confirm_admin then 1 else 0))
           then [TextFieldUpdate confirm_admin pass] else []) @
          (if datacenter_name \<noteq> PNone then [TextFieldUpdate dc datacenter_name] else []) @
          (if cluster_name \<noteq> PNone then [TextFieldUpdate cl cluster_name] else []) @
          (if cpu_type \<noteq> PNone then [TextFieldUpdate cpu cpu_type] else []) @
          [Click nxt None]) b)"
    unfolding page_rhev_configuration_def
    using a q1 fields
    by (simp add: act_seq_unfold act_bind_def wait_for_registered click_on_registered
        del: act_seq.simps)
next
  assume a: "locators ''rhci.cfme_root_password'' = Some cfme_root \<and>
    locators ''rhci.confirm_cfme_root_password'' = Some confirm_cfme_root \<and>
    locators ''rhci.cfme_admin_password'' = Some cfme_admin \<and>
    locators ''rhci.confirm_cfme_admin_password'' = Some confirm_cfme_admin \<and>
    locators ''rhci.next'' = Some nxt \<and>
    (\<forall>e k. fault b e k = None)"
  have install: "act_bind (wait_until_element install None) (\<lambda>present.
          act_when present (click install None)) b =
       (Inr (), with_calls (WaitUntilElement install None #
          (if found b (WaitUntilElement install None) (occurrence b (WaitUntilElement install None))
           then [Click install None] else [])) b)"
    using a by (simp add: act_bind_def wait_until_element_unfold when_click)
  have ignored: "act_bind (wait_for locators ''rhci.cfme_root_password'' None) (\<lambda>_. act_return ()) b' =
        (Inr (), with_calls [WaitUntilElement cfme_root None] b')" for b'
    using a by (simp add: act_bind_def wait_for_registered act_return_def)
  show "page_cloudforms_configuration locators install root_password admin_password b =
      (Inr (),
       with_calls
         ([WaitUntilElement install None] @
          (if found b (WaitUntilElement install None) (occurrence b (WaitUntilElement install None))
           then [Click install None] else []) @
          [Click nxt None, WaitUntilElement cfme_root None, TextFieldUpdate cfme_root root_password,
           WaitUntilElement confirm_cfme_root (Some 5)] @
          (if found b (WaitUntilElement confirm_cfme_root (Some 5))
                (occurrence b (WaitUntilElement confirm_cfme_root (Some 5)))
           then [TextFieldUpdate confirm_cfme_root root_password] else []) @
          [TextFieldUpdate cfme_admin admin_password, WaitUntilElement confirm_cfme_admin (Some 5)] @
          (if found b (WaitUntilElement confirm_cfme_admin (Some 5))
                (occurrence b (WaitUntilElement confirm_cfme_admin (Some 5)) +
                 (if confirm_cfme_root = confirm_cfme_admin then 1 else 0))
           then [TextFieldUpdate confirm_cfme_admin admin_password] else []) @
          [Click nxt None]) b)"
    unfolding page_cloudforms_configuration_def
    using a
    by (simp add: act_seq_unfold install ignored update_field_registered optional_field
        click_on_registered del: act_seq.simps)
qed


text \<open>The theorem on both pages, with the confirmation fields hidden and shown.\<close>

theorem optional_confirmation_fields_witness:
  "page_rhev_configuration config_locators (PStr ''secret'') PNone PNone (PStr ''Intel'')
     (page_script False) =
     (Inr (), with_calls
        [WaitUntilElement (''id'', ''root_pass'') None,
         TextFieldUpdate (''id'', ''root_pass'') (PStr ''secret''),
         WaitUntilElement (''id'', ''confirm_root_pass'') (Some 5),
         TextFieldUpdate (''id'', ''admin_pass'') (PStr ''secret''),
         WaitUntilElement (''id'', ''confirm_admin_pass'') (Some 5),
         TextFieldUpdate (''id'', ''cpu'') (PStr ''Intel''),
         Click (''xpath'', ''//button[@id=next]'') None] (page_script False)) \<and>
   page_rhev_configuration config_locators (PStr ''secret'') PNone PNone (PStr ''Intel'')
     (page_script True) =
     (Inr (), with_calls
        [WaitUntilElement (''id'', ''root_pass'') None,
         TextFieldUpdate (''id'', ''root_pass'') (PStr ''secret''),
         WaitUntilElement (''id'', ''confirm_root_pass'') (Some 5),
         TextFieldUpdate (''id'', ''confirm_root_pass'') (PStr ''secret''),
         TextFieldUpdate (''id'', ''admin_pass'') (PStr ''secret''),
         WaitUntilElement (''id'', ''confirm_admin_pass'') (Some 5),
         TextFieldUpdate (''id'', ''confirm_admin_pass'') (PStr ''secret''),
         TextFieldUpdate (''id'', ''cpu'') (PStr ''Intel''),
         Click (''xpath'', ''//button[@id=next]'') None] (page_script True)) \<and>
   page_cloudforms_configuration config_locators (''id'', ''install_on_rhev'') (PStr ''r00t'')
     (PStr ''adm1n'') (page_script False) =
     (Inr (), with_calls
        [WaitUntilElement (''id'', ''install_on_rhev'') None,
         Click (''id'', ''install_on_rhev'') None,
         Click (''xpath'', ''//button[@id=next]'') None,
         WaitUntilElement (''id'', ''cfme_root'') None,
         TextFieldUpdate (''id'', ''cfme_root'') (PStr ''r00t''),
         WaitUntilElement (''id'', ''confirm_cfme_root'') (Some 5),
         TextFieldUpdate (''id'', ''cfme_admin'') (PStr ''adm1n''),
         WaitUntilElement (''id'', ''confirm_cfme_admin'') (Some 5),
         Click (''xpath'', ''//button[@id=next]'') None] (page_script False)) \<and>
   page_cloudforms_configuration config_locators (''id'', ''install_on_rhev'') (PStr ''r00t'')
     (PStr ''adm1n'') (page_script True) =
     (Inr (), with_calls
        [WaitUntilElement (''id'', ''install_on_rhev'') None,
         Click (''id'', ''install_on_rhev'') None,
         Click (''xpath'', ''//button[@id=next]'') None,
         WaitUntilElement (''id'', ''cfme_root'') None,
         TextFieldUpdate (''id'', ''cfme_root'') (PStr ''r00t''),
         WaitUntilElement (''id'', ''confirm_cfme_root'') (Some 5),
         TextFieldUpdate (''id'', ''confirm_cfme_root'') (PStr ''r00t''),
         TextFieldUpdate (''id'', ''cfme_admin'') (PStr ''adm1n''),
         WaitUntilElement (''id'', ''confirm_cfme_admin'') (Some 5),
         TextFieldUpdate (''id'', ''confirm_cfme_admin'') (PStr ''adm1n''),
         Click (''xpath'', ''//button[@id=next]'') None] (page_script True))"
  using optional_confirmation_fields [where locators = config_locators
      and root = "(''id'', ''root_pass'')" and confirm_root = "(''id'', ''confirm_root_pass'')"
      and admin = "(''id'', ''admin_pass'')" and confirm_admin = "(''id'', ''confirm_admin_pass'')"
      and dc = "(''id'', ''datacenter'')" and cl = "(''id'', ''cluster'')" and cpu = "(''id'', ''cpu'')"
      and nxt = "(''xpath'', ''//button[@id=next]'')"
      and cfme_root = "(''id'', ''cfme_root'')" and confirm_cfme_root = "(''id'', ''confirm_cfme_root'')"
      and cfme_admin = "(''id'', ''cfme_admin'')"
      and confirm_cfme_admin = "(''id'', ''confirm_cfme_admin'')"
      and pass = "PStr ''secret''" and datacenter_name = PNone and cluster_name = PNone
      and cpu_type = "PStr ''Intel''" and install = "(''id'', ''install_on_rhev'')"
      and root_password = "PStr ''r00t''" and admin_password = "PStr ''adm1n''"
      and b = "page_script False"]
    optional_confirmation_fields [where locators = config_locators
      and root = "(''id'', ''root_pass'')" and confirm_root = "(''id'', ''confirm_root_pass'')"
      and admin = "(''id'', ''admin_pass'')" and confirm_admin = "(''id'', ''confirm_admin_pass'')"
      and dc = "(''id'', ''datacenter'')" and cl = "(''id'', ''cluster'')" and cpu = "(''id'', ''cpu'')"
      and nxt = "(''xpath'', ''//button[@id=next]'')"
      and cfme_root = "(''id'', ''cfme_root'')" and confirm_cfme_root = "(''id'', ''confirm_cfme_root'')"
      and cfme_admin = "(''id'', ''cfme_admin'')"
      and confirm_cfme_admin = "(''id'', ''confirm_cfme_admin'')"
      and pass = "PStr ''secret''" and datacenter_name = PNone and cluster_name = PNone
      and cpu_type = "PStr ''Intel''" and install = "(''id'', ''install_on_rhev'')"
      and root_password = "PStr ''r00t''" and admin_password = "PStr ''adm1n''"
      and b = "page_script True"]
  by (simp add: config_locators_def page_script_def occurrence_def)

subsection \<open>The content layer\<close>

lemma contains_literals:
  "contains ''custom'' ''custom''" "\<not> contains ''custom'' ''redhat''"
  "contains ''redhat'' ''redhat''" "\<not> contains ''custom'' ''filters''"
  "\<not> contains ''redhat'' ''filters''" "contains ''filters'' ''filters''"
  by simp_all



lemmas content_unfold =
  select_content_provider_def select_content_provider_try_def act_bind_def act_then_def
  act_catch_def act_return_def act_raise_def wait_xpath_def perform_move_to_def element_click_def
  driver_get_def interact_def format_act_def fail_if_none_def record_call_def with_calls_def
  occurrence_def prepend_def fallback_url_def


text \<open>
  Claim C6 does not hold of \<open>delete_custom_provider\<close>. On a page that lists the provider
  but shows no remove link, the method clicks the provider, waits for the link and calls
  \<open>click\<close> on the \<open>None\<close> the wait returned: the run ends with \<open>AttributeError\<close>, not with
  an assertion failure that names the missing link.
\<close>

theorem delete_custom_provider_null_reference:
  "delete_custom_provider site ''Fedora'' (providers_page None None False) =
     (Inl (AttributeError ''click''),
      with_calls
        [SelectTab ''//a[text()=Content]'',
         WaitUntilElement (''xpath'', ''//a[text()=Providers]'') None,
         MoveToElement (ByXPath ''//a[text()=Providers]''),
         WaitUntilElement (''xpath'', ''//a[@id=custom]'') None,
         ElementClick (ByXPath ''//a[@id=custom]''),
         FindElements ''//div[@class=provider]'',
         ElementClick (InRow ''provider_39'' ''.//div[text()=Fedora]''),
         WaitUntilElement (''xpath'', ''//a[@id=remove_39]'') None]
        (providers_page None None False))"
  by (simp add: delete_custom_provider_def go_to_content_tab_def assert_true_def
      get_provider_by_name_def after_last_underscore_def content_unfold
      site_def providers_page_def)

end
